theory Spec2Isabelle
  imports Main "HOL-Library.Word"
begin

section \<open>Values shared with the parse/format engine\<close>

text \<open>
  The wrapper in \<^verbatim>\<open>readcon-core.hpp\<close> only copies floating-point numbers, it never
  computes with them, so a \<^verbatim>\<open>double\<close> is its 64-bit pattern. \<^verbatim>\<open>uint64_t\<close> is a 64-bit
  word, \<^verbatim>\<open>uint8_t\<close> an 8-bit word. A pointer to an opaque engine object is a natural
  number, a nullable pointer an \<open>option\<close> (\<open>None\<close> is \<^verbatim>\<open>nullptr\<close>).
  \<^verbatim>\<open>std::array<double, 3>\<close> is a triple, \<^verbatim>\<open>std::array<std::string, 2>\<close> a pair.
\<close>

type_synonym double = "64 word"
type_synonym double3 = "double \<times> double \<times> double"
type_synonym string2 = "string \<times> string"

text \<open>\<^verbatim>\<open>struct Atom\<close>; the coordinate fields carry a prefix, the others their own name.\<close>

record Atom =
  atomic_number :: "64 word"
  atom_x :: double
  atom_y :: double
  atom_z :: double
  atom_id :: "64 word"
  mass :: double
  is_fixed :: bool
  atom_vx :: double
  atom_vy :: double
  atom_vz :: double
  has_velocity :: bool

text \<open>
  \<^verbatim>\<open>CAtom\<close> and \<^verbatim>\<open>CFrame\<close> are declared in the engine's C header; their fields are the
  ones \<^verbatim>\<open>ConFrame::cache_data\<close> reads. \<^verbatim>\<open>c_frame->atoms\<close> is a pointer that the code
  indexes below \<^verbatim>\<open>num_atoms\<close>, so it is a function of the index.
\<close>

record CAtom =
  c_atomic_number :: "64 word"
  c_x :: double
  c_y :: double
  c_z :: double
  c_atom_id :: "64 word"
  c_mass :: double
  c_is_fixed :: bool
  c_vx :: double
  c_vy :: double
  c_vz :: double
  c_has_velocity :: bool

record CFrame =
  c_cell :: double3
  c_angles :: double3
  c_has_velocities :: bool
  c_num_atoms :: nat
  c_atoms :: "nat \<Rightarrow> CAtom"

datatype error = Runtime_error string

text \<open>\<^verbatim>\<open>std::string::c_str()\<close> read as a C string: the bytes before the first NUL.\<close>

definition c_str :: "string \<Rightarrow> string" where
  "c_str s = takeWhile (\<lambda>c. c \<noteq> CHR 0x00) s"

section \<open>The engine behind the foreign-function boundary\<close>

text \<open>
  Every function of \<^verbatim>\<open>readcon-core.h\<close> that the wrapper calls. The engine is a parameter
  of the whole development: a record of functions over an engine state \<open>'e\<close>, one per
  foreign function, each taking the arguments the wrapper passes and returning what the
  wrapper receives together with the engine's next state.
\<close>

record 'e engine =
  read_con_file_iterator :: "string \<Rightarrow> 'e \<Rightarrow> nat option \<times> 'e"
  free_con_frame_iterator :: "nat \<Rightarrow> 'e \<Rightarrow> 'e"
  con_frame_iterator_next :: "nat option \<Rightarrow> 'e \<Rightarrow> nat option \<times> 'e"
  free_rkr_frame :: "nat \<Rightarrow> 'e \<Rightarrow> 'e"
  rkr_frame_to_c_frame :: "nat option \<Rightarrow> 'e \<Rightarrow> CFrame option \<times> 'e"
  free_c_frame :: "CFrame \<Rightarrow> 'e \<Rightarrow> 'e"
  rkr_frame_get_header_line_cpp :: "nat option \<Rightarrow> bool \<Rightarrow> nat \<Rightarrow> 'e \<Rightarrow> string option \<times> 'e"
  rkr_free_string :: "string \<Rightarrow> 'e \<Rightarrow> 'e"
  create_writer_from_path_c :: "string \<Rightarrow> 'e \<Rightarrow> nat option \<times> 'e"
  create_writer_from_path_with_precision_c :: "string \<Rightarrow> 8 word \<Rightarrow> 'e \<Rightarrow> nat option \<times> 'e"
  free_rkr_writer :: "nat \<Rightarrow> 'e \<Rightarrow> 'e"
  rkr_writer_extend :: "nat option \<Rightarrow> nat option list \<Rightarrow> nat \<Rightarrow> 'e \<Rightarrow> int \<times> 'e"
  rkr_frame_new :: "double3 \<Rightarrow> double3 \<Rightarrow> string \<Rightarrow> string \<Rightarrow> string \<Rightarrow> string \<Rightarrow> 'e \<Rightarrow> nat option \<times> 'e"
  free_rkr_frame_builder :: "nat \<Rightarrow> 'e \<Rightarrow> 'e"
  rkr_frame_add_atom ::
    "nat option \<Rightarrow> string \<Rightarrow> double3 \<Rightarrow> bool \<Rightarrow> 64 word \<Rightarrow> double \<Rightarrow> 'e \<Rightarrow> int \<times> 'e"
  rkr_frame_add_atom_with_velocity ::
    "nat option \<Rightarrow> string \<Rightarrow> double3 \<Rightarrow> bool \<Rightarrow> 64 word \<Rightarrow> double \<Rightarrow> double3 \<Rightarrow> 'e \<Rightarrow> int \<times> 'e"
  rkr_frame_builder_build :: "nat option \<Rightarrow> 'e \<Rightarrow> nat option \<times> 'e"

text \<open>
  What crosses the boundary: each call with its arguments and, last, the value the engine
  returned (the release functions return nothing).
\<close>

datatype ffi_call =
    Read_con_file_iterator string "nat option"
  | Free_con_frame_iterator nat
  | Con_frame_iterator_next "nat option" "nat option"
  | Free_rkr_frame nat
  | Rkr_frame_to_c_frame "nat option" "CFrame option"
  | Free_c_frame CFrame
  | Rkr_frame_get_header_line_cpp "nat option" bool nat "string option"
  | Rkr_free_string string
  | Create_writer_from_path_c string "nat option"
  | Create_writer_from_path_with_precision_c string "8 word" "nat option"
  | Free_rkr_writer nat
  | Rkr_writer_extend "nat option" "nat option list" nat int
  | Rkr_frame_new double3 double3 string string string string "nat option"
  | Free_rkr_frame_builder nat
  | Rkr_frame_add_atom "nat option" string double3 bool "64 word" double int
  | Rkr_frame_add_atom_with_velocity "nat option" string double3 bool "64 word" double double3 int
  | Rkr_frame_builder_build "nat option" "nat option"

text \<open>
  The world the wrapper runs in: the engine's state, the trace of foreign calls made so
  far, and the next free address of the C++ heap (\<^verbatim>\<open>new ConFrame\<close> in
  \<^verbatim>\<open>fetch_next_frame\<close>; addresses are never reused, so two live objects never share one).
\<close>

record 'e world =
  engine_state :: 'e
  trace :: "ffi_call list"
  heap_next :: nat

text \<open>
  A foreign call that returns a value (\<open>k\<close> is the call still waiting for its result), and
  one that returns \<^verbatim>\<open>void\<close>.
\<close>

definition ffi :: "('r \<Rightarrow> ffi_call) \<Rightarrow> ('e \<Rightarrow> 'r \<times> 'e) \<Rightarrow> 'e world \<Rightarrow> 'r \<times> 'e world" where
  "ffi k f w =
     (case f (engine_state w) of
        (r, s) \<Rightarrow> (r, w\<lparr>engine_state := s, trace := trace w @ [k r]\<rparr>))"

definition ffi_void :: "ffi_call \<Rightarrow> ('e \<Rightarrow> 'e) \<Rightarrow> 'e world \<Rightarrow> 'e world" where
  "ffi_void c f w = w\<lparr>engine_state := f (engine_state w), trace := trace w @ [c]\<rparr>"

section \<open>ConFrame: lazy materialization and its cache\<close>

record ConFrame =
  frame_handle :: "nat option"
  is_cached :: bool
  atoms_cache :: "Atom list"
  cell_cache :: double3
  angles_cache :: double3
  prebox_header_cache :: string2
  postbox_header_cache :: string2
  has_velocities_cache :: bool

text \<open>
  \<^verbatim>\<open>ConFrame::ConFrame(RKRConFrame *)\<close>. The constructor initialises the handle only; the
  two flags have default member initialisers, vector and strings start empty, and the two
  \<^verbatim>\<open>std::array<double, 3>\<close> members are left indeterminate: their contents are the
  parameter \<open>u\<close>.
\<close>

definition ConFrame_ctor :: "double3 \<times> double3 \<Rightarrow> nat option \<Rightarrow> ConFrame" where
  "ConFrame_ctor u h =
     \<lparr>frame_handle = h, is_cached = False, atoms_cache = [],
      cell_cache = fst u, angles_cache = snd u,
      prebox_header_cache = ([], []), postbox_header_cache = ([], []),
      has_velocities_cache = False\<rparr>"

text \<open>\<^verbatim>\<open>FrameDeleter\<close>, run when a ConFrame is destroyed.\<close>

definition ConFrame_dtor :: "'e engine \<Rightarrow> ConFrame \<Rightarrow> 'e world \<Rightarrow> 'e world" where
  "ConFrame_dtor e f w =
     (case frame_handle f of
        None \<Rightarrow> w
      | Some p \<Rightarrow> ffi_void (Free_rkr_frame p) (free_rkr_frame e p) w)"

definition get_handle :: "ConFrame \<Rightarrow> nat option" where
  "get_handle f = frame_handle f"

text \<open>The \<^verbatim>\<open>Atom{...}\<close> initialiser in the loop of \<^verbatim>\<open>cache_data\<close>.\<close>

definition Atom_of_CAtom :: "CAtom \<Rightarrow> Atom" where
  "Atom_of_CAtom a =
     \<lparr>atomic_number = c_atomic_number a, atom_x = c_x a, atom_y = c_y a, atom_z = c_z a,
      atom_id = c_atom_id a, mass = c_mass a, is_fixed = c_is_fixed a,
      atom_vx = c_vx a, atom_vy = c_vy a, atom_vz = c_vz a,
      has_velocity = c_has_velocity a\<rparr>"

text \<open>The lambda \<^verbatim>\<open>get_and_free_string\<close>: a null line is the empty string.\<close>

definition get_and_free_string ::
  "'e engine \<Rightarrow> nat option \<Rightarrow> bool \<Rightarrow> nat \<Rightarrow> 'e world \<Rightarrow> string \<times> 'e world" where
  "get_and_free_string e h is_prebox index w =
     (case ffi (Rkr_frame_get_header_line_cpp h is_prebox index)
             (rkr_frame_get_header_line_cpp e h is_prebox index) w of
        (None, w1) \<Rightarrow> ([], w1)
      | (Some s, w1) \<Rightarrow> (s, ffi_void (Rkr_free_string s) (rkr_free_string e s) w1))"

text \<open>
  \<^verbatim>\<open>ConFrame::cache_data\<close>. The result is the exception or normal return, the frame with
  its \<^verbatim>\<open>mutable\<close> members as the call leaves them, and the world.
\<close>

definition cache_data ::
  "'e engine \<Rightarrow> ConFrame \<Rightarrow> 'e world \<Rightarrow> (error + unit) \<times> ConFrame \<times> 'e world" where
  "cache_data e f w =
     (if is_cached f then (Inr (), f, w)
      else
        case ffi (Rkr_frame_to_c_frame (frame_handle f))
               (rkr_frame_to_c_frame e (frame_handle f)) w of
          (None, w1) \<Rightarrow>
            (Inl (Runtime_error ''Failed to extract CFrame from handle for caching.''), f, w1)
        | (Some c, w1) \<Rightarrow>
            (let f1 = f\<lparr>cell_cache := c_cell c, angles_cache := c_angles c,
                        has_velocities_cache := c_has_velocities c,
                        atoms_cache := atoms_cache f
                          @ map (\<lambda>i. Atom_of_CAtom (c_atoms c i)) [0 ..< c_num_atoms c]\<rparr>;
                 w2 = ffi_void (Free_c_frame c) (free_c_frame e c) w1
             in case get_and_free_string e (frame_handle f) True 0 w2 of (pre0, w3) \<Rightarrow>
                case get_and_free_string e (frame_handle f) True 1 w3 of (pre1, w4) \<Rightarrow>
                case get_and_free_string e (frame_handle f) False 0 w4 of (post0, w5) \<Rightarrow>
                case get_and_free_string e (frame_handle f) False 1 w5 of (post1, w6) \<Rightarrow>
                  (Inr (),
                   f1\<lparr>prebox_header_cache := (pre0, pre1),
                      postbox_header_cache := (post0, post1),
                      is_cached := True\<rparr>,
                   w6)))"

text \<open>The six accessors: each runs \<^verbatim>\<open>cache_data\<close> and returns its member.\<close>

definition cell ::
  "'e engine \<Rightarrow> ConFrame \<Rightarrow> 'e world \<Rightarrow> (error + double3) \<times> ConFrame \<times> 'e world" where
  "cell e f w =
     (case cache_data e f w of
        (Inl x, f', w') \<Rightarrow> (Inl x, f', w')
      | (Inr _, f', w') \<Rightarrow> (Inr (cell_cache f'), f', w'))"

definition angles ::
  "'e engine \<Rightarrow> ConFrame \<Rightarrow> 'e world \<Rightarrow> (error + double3) \<times> ConFrame \<times> 'e world" where
  "angles e f w =
     (case cache_data e f w of
        (Inl x, f', w') \<Rightarrow> (Inl x, f', w')
      | (Inr _, f', w') \<Rightarrow> (Inr (angles_cache f'), f', w'))"

definition atoms ::
  "'e engine \<Rightarrow> ConFrame \<Rightarrow> 'e world \<Rightarrow> (error + Atom list) \<times> ConFrame \<times> 'e world" where
  "atoms e f w =
     (case cache_data e f w of
        (Inl x, f', w') \<Rightarrow> (Inl x, f', w')
      | (Inr _, f', w') \<Rightarrow> (Inr (atoms_cache f'), f', w'))"

definition prebox_header ::
  "'e engine \<Rightarrow> ConFrame \<Rightarrow> 'e world \<Rightarrow> (error + string2) \<times> ConFrame \<times> 'e world" where
  "prebox_header e f w =
     (case cache_data e f w of
        (Inl x, f', w') \<Rightarrow> (Inl x, f', w')
      | (Inr _, f', w') \<Rightarrow> (Inr (prebox_header_cache f'), f', w'))"

definition postbox_header ::
  "'e engine \<Rightarrow> ConFrame \<Rightarrow> 'e world \<Rightarrow> (error + string2) \<times> ConFrame \<times> 'e world" where
  "postbox_header e f w =
     (case cache_data e f w of
        (Inl x, f', w') \<Rightarrow> (Inl x, f', w')
      | (Inr _, f', w') \<Rightarrow> (Inr (postbox_header_cache f'), f', w'))"

definition has_velocities ::
  "'e engine \<Rightarrow> ConFrame \<Rightarrow> 'e world \<Rightarrow> (error + bool) \<times> ConFrame \<times> 'e world" where
  "has_velocities e f w =
     (case cache_data e f w of
        (Inl x, f', w') \<Rightarrow> (Inl x, f', w')
      | (Inr _, f', w') \<Rightarrow> (Inr (has_velocities_cache f'), f', w'))"

section \<open>ConFrameIterator and its nested Iterator\<close>

text \<open>
  \<^verbatim>\<open>ConFrameIterator\<close> owns the engine's session pointer. The nested \<^verbatim>\<open>Iterator\<close> borrows
  that pointer and owns the current frame through a \<^verbatim>\<open>std::unique_ptr<ConFrame>\<close>: the
  address of the heap object together with the object, \<open>None\<close> for a null pointer.
\<close>

record ConFrameIterator =
  cfi_iterator_ptr :: "nat option"

record Iterator =
  it_iterator_ptr :: "nat option"
  current_frame :: "(nat \<times> ConFrame) option"

definition ConFrameIterator_ctor ::
  "'e engine \<Rightarrow> string \<Rightarrow> 'e world \<Rightarrow> (error + ConFrameIterator) \<times> 'e world" where
  "ConFrameIterator_ctor e path w =
     (case ffi (Read_con_file_iterator (c_str path)) (read_con_file_iterator e (c_str path)) w of
        (None, w1) \<Rightarrow>
          (Inl (Runtime_error (''Failed to open .con file for iteration: '' @ path)), w1)
      | (Some p, w1) \<Rightarrow> (Inr \<lparr>cfi_iterator_ptr = Some p\<rparr>, w1))"

text \<open>\<^verbatim>\<open>IteratorDeleter\<close>, run when the ConFrameIterator is destroyed.\<close>

definition ConFrameIterator_dtor :: "'e engine \<Rightarrow> ConFrameIterator \<Rightarrow> 'e world \<Rightarrow> 'e world" where
  "ConFrameIterator_dtor e c w =
     (case cfi_iterator_ptr c of
        None \<Rightarrow> w
      | Some p \<Rightarrow> ffi_void (Free_con_frame_iterator p) (free_con_frame_iterator e p) w)"

text \<open>Assigning to \<^verbatim>\<open>current_frame_\<close> destroys the frame held before, if any.\<close>

definition release_current :: "'e engine \<Rightarrow> Iterator \<Rightarrow> 'e world \<Rightarrow> 'e world" where
  "release_current e it w =
     (case current_frame it of
        None \<Rightarrow> w
      | Some (a, old) \<Rightarrow> ConFrame_dtor e old w)"

definition fetch_next_frame ::
  "'e engine \<Rightarrow> double3 \<times> double3 \<Rightarrow> Iterator \<Rightarrow> 'e world \<Rightarrow> Iterator \<times> 'e world" where
  "fetch_next_frame e u it w =
     (case ffi (Con_frame_iterator_next (it_iterator_ptr it))
             (con_frame_iterator_next e (it_iterator_ptr it)) w of
        (Some h, w1) \<Rightarrow>
          (let a = heap_next w1;
               w2 = w1\<lparr>heap_next := Suc a\<rparr>
           in (it\<lparr>current_frame := Some (a, ConFrame_ctor u (Some h))\<rparr>,
               release_current e it w2))
      | (None, w1) \<Rightarrow> (it\<lparr>current_frame := None\<rparr>, release_current e it w1))"

definition Iterator_ctor ::
  "'e engine \<Rightarrow> double3 \<times> double3 \<Rightarrow> nat option \<Rightarrow> 'e world \<Rightarrow> Iterator \<times> 'e world" where
  "Iterator_ctor e u iterator_ptr w =
     (let it = \<lparr>it_iterator_ptr = iterator_ptr, current_frame = None\<rparr>
      in if iterator_ptr \<noteq> None then fetch_next_frame e u it w else (it, w))"

text \<open>\<^verbatim>\<open>begin()\<close> and \<^verbatim>\<open>end()\<close>.\<close>

definition ConFrameIterator_begin ::
  "'e engine \<Rightarrow> double3 \<times> double3 \<Rightarrow> ConFrameIterator \<Rightarrow> 'e world \<Rightarrow> Iterator \<times> 'e world" where
  "ConFrameIterator_begin e u c w = Iterator_ctor e u (cfi_iterator_ptr c) w"

definition ConFrameIterator_end ::
  "'e engine \<Rightarrow> double3 \<times> double3 \<Rightarrow> ConFrameIterator \<Rightarrow> 'e world \<Rightarrow> Iterator \<times> 'e world" where
  "ConFrameIterator_end e u c w = Iterator_ctor e u None w"

text \<open>\<^verbatim>\<open>operator!=\<close> compares the two \<^verbatim>\<open>unique_ptr\<close>s, that is, the addresses they hold.\<close>

definition Iterator_neq :: "Iterator \<Rightarrow> Iterator \<Rightarrow> bool" where
  "Iterator_neq a b = (map_option fst (current_frame a) \<noteq> map_option fst (current_frame b))"

text \<open>\<^verbatim>\<open>operator++\<close>.\<close>

definition Iterator_inc ::
  "'e engine \<Rightarrow> double3 \<times> double3 \<Rightarrow> Iterator \<Rightarrow> 'e world \<Rightarrow> Iterator \<times> 'e world" where
  "Iterator_inc e u it w = fetch_next_frame e u it w"

text \<open>\<^verbatim>\<open>operator*\<close>; dereferencing a null \<^verbatim>\<open>current_frame_\<close> has no defined result.\<close>

definition Iterator_deref :: "Iterator \<Rightarrow> ConFrame option" where
  "Iterator_deref it = map_option snd (current_frame it)"

section \<open>ConFrameWriter\<close>

record ConFrameWriter =
  writer_handle :: "nat option"

definition ConFrameWriter_ctor ::
  "'e engine \<Rightarrow> string \<Rightarrow> 8 word \<Rightarrow> 'e world \<Rightarrow> (error + ConFrameWriter) \<times> 'e world" where
  "ConFrameWriter_ctor e path precision w =
     (case (if precision = 6
            then ffi (Create_writer_from_path_c (c_str path))
                   (create_writer_from_path_c e (c_str path)) w
            else ffi (Create_writer_from_path_with_precision_c (c_str path) precision)
                   (create_writer_from_path_with_precision_c e (c_str path) precision) w) of
        (None, w1) \<Rightarrow> (Inl (Runtime_error (''Failed to create writer for file: '' @ path)), w1)
      | (Some p, w1) \<Rightarrow> (Inr \<lparr>writer_handle = Some p\<rparr>, w1))"

text \<open>The constructor called without its second argument: \<^verbatim>\<open>uint8_t precision = 6\<close>.\<close>

definition ConFrameWriter_ctor_default ::
  "'e engine \<Rightarrow> string \<Rightarrow> 'e world \<Rightarrow> (error + ConFrameWriter) \<times> 'e world" where
  "ConFrameWriter_ctor_default e path w = ConFrameWriter_ctor e path 6 w"

definition ConFrameWriter_dtor :: "'e engine \<Rightarrow> ConFrameWriter \<Rightarrow> 'e world \<Rightarrow> 'e world" where
  "ConFrameWriter_dtor e wr w =
     (case writer_handle wr of
        None \<Rightarrow> w
      | Some p \<Rightarrow> ffi_void (Free_rkr_writer p) (free_rkr_writer e p) w)"

definition ConFrameWriter_extend ::
  "'e engine \<Rightarrow> ConFrameWriter \<Rightarrow> ConFrame list \<Rightarrow> 'e world \<Rightarrow> (error + unit) \<times> 'e world" where
  "ConFrameWriter_extend e wr frames w =
     (if frames = [] then (Inr (), w)
      else
        let handles = map get_handle frames
        in case ffi (Rkr_writer_extend (writer_handle wr) handles (length handles))
                  (rkr_writer_extend e (writer_handle wr) handles (length handles)) w of
             (r, w1) \<Rightarrow>
               if r \<noteq> 0 then (Inl (Runtime_error ''Failed to write multiple frames.''), w1)
               else (Inr (), w1))"

section \<open>ConFrameBuilder\<close>

record ConFrameBuilder =
  builder_handle :: "nat option"

definition ConFrameBuilder_ctor ::
  "'e engine \<Rightarrow> double3 \<Rightarrow> double3 \<Rightarrow> string2 \<Rightarrow> string2 \<Rightarrow> 'e world
     \<Rightarrow> (error + ConFrameBuilder) \<times> 'e world" where
  "ConFrameBuilder_ctor e cell_arg angles_arg prebox postbox w =
     (case ffi (Rkr_frame_new cell_arg angles_arg (c_str (fst prebox)) (c_str (snd prebox))
                  (c_str (fst postbox)) (c_str (snd postbox)))
               (rkr_frame_new e cell_arg angles_arg (c_str (fst prebox)) (c_str (snd prebox))
                  (c_str (fst postbox)) (c_str (snd postbox))) w of
        (None, w1) \<Rightarrow> (Inl (Runtime_error ''Failed to create frame builder.''), w1)
      | (Some p, w1) \<Rightarrow> (Inr \<lparr>builder_handle = Some p\<rparr>, w1))"

definition ConFrameBuilder_dtor :: "'e engine \<Rightarrow> ConFrameBuilder \<Rightarrow> 'e world \<Rightarrow> 'e world" where
  "ConFrameBuilder_dtor e b w =
     (case builder_handle b of
        None \<Rightarrow> w
      | Some p \<Rightarrow> ffi_void (Free_rkr_frame_builder p) (free_rkr_frame_builder e p) w)"

definition add_atom ::
  "'e engine \<Rightarrow> ConFrameBuilder \<Rightarrow> string \<Rightarrow> double3 \<Rightarrow> bool \<Rightarrow> 64 word \<Rightarrow> double \<Rightarrow> 'e world
     \<Rightarrow> (error + unit) \<times> 'e world" where
  "add_atom e b symbol xyz fixed ident m w =
     (case ffi (Rkr_frame_add_atom (builder_handle b) (c_str symbol) xyz fixed ident m)
             (rkr_frame_add_atom e (builder_handle b) (c_str symbol) xyz fixed ident m) w of
        (r, w1) \<Rightarrow>
          if r \<noteq> 0 then (Inl (Runtime_error ''Failed to add atom to frame builder.''), w1)
          else (Inr (), w1))"

definition add_atom_with_velocity ::
  "'e engine \<Rightarrow> ConFrameBuilder \<Rightarrow> string \<Rightarrow> double3 \<Rightarrow> bool \<Rightarrow> 64 word \<Rightarrow> double \<Rightarrow> double3
     \<Rightarrow> 'e world \<Rightarrow> (error + unit) \<times> 'e world" where
  "add_atom_with_velocity e b symbol xyz fixed ident m v w =
     (case ffi (Rkr_frame_add_atom_with_velocity (builder_handle b) (c_str symbol) xyz fixed
                  ident m v)
             (rkr_frame_add_atom_with_velocity e (builder_handle b) (c_str symbol) xyz fixed
                  ident m v) w of
        (r, w1) \<Rightarrow>
          if r \<noteq> 0
          then (Inl (Runtime_error ''Failed to add atom with velocity to frame builder.''), w1)
          else (Inr (), w1))"

text \<open>
  \<^verbatim>\<open>ConFrameBuilder::build\<close>: the handle is cleared before the result is looked at, so the
  builder comes back with a null handle on both paths.
\<close>

definition build ::
  "'e engine \<Rightarrow> double3 \<times> double3 \<Rightarrow> ConFrameBuilder \<Rightarrow> 'e world
     \<Rightarrow> (error + ConFrame) \<times> ConFrameBuilder \<times> 'e world" where
  "build e u b w =
     (case ffi (Rkr_frame_builder_build (builder_handle b))
             (rkr_frame_builder_build e (builder_handle b)) w of
        (frame, w1) \<Rightarrow>
          (let b1 = b\<lparr>builder_handle := None\<rparr>
           in case frame of
                None \<Rightarrow> (Inl (Runtime_error ''Failed to build frame from builder.''), b1, w1)
              | Some p \<Rightarrow> (Inr (ConFrame_ctor u (Some p)), b1, w1)))"

text \<open>
  The wrapper passes the builder's handle to the engine as it is, null included; what a
  null builder handle is answered with is the engine's part, and the engine's header is
  not among the sources. An engine refuses a null builder handle when, in every state, it
  answers a build on it with null and an added atom with a result other than zero.
\<close>

definition refuses_null_builder :: "'e engine \<Rightarrow> bool" where
  "refuses_null_builder e \<longleftrightarrow>
     (\<forall>s. fst (rkr_frame_builder_build e None s) = None)
     \<and> (\<forall>symbol xyz fixed ident m s.
           fst (rkr_frame_add_atom e None symbol xyz fixed ident m s) \<noteq> 0)
     \<and> (\<forall>symbol xyz fixed ident m v s.
           fst (rkr_frame_add_atom_with_velocity e None symbol xyz fixed ident m v s) \<noteq> 0)"

section \<open>Reading the trace\<close>

text \<open>The calls that hand something back to the engine, and those that ask it for something.\<close>

fun is_release :: "ffi_call \<Rightarrow> bool" where
  "is_release (Free_con_frame_iterator _) = True"
| "is_release (Free_rkr_frame _) = True"
| "is_release (Free_c_frame _) = True"
| "is_release (Rkr_free_string _) = True"
| "is_release (Free_rkr_writer _) = True"
| "is_release (Free_rkr_frame_builder _) = True"
| "is_release _ = False"

fun is_snapshot_query :: "ffi_call \<Rightarrow> bool" where
  "is_snapshot_query (Rkr_frame_to_c_frame _ _) = True"
| "is_snapshot_query _ = False"

fun is_header_query :: "ffi_call \<Rightarrow> bool" where
  "is_header_query (Rkr_frame_get_header_line_cpp _ _ _ _) = True"
| "is_header_query _ = False"

definition requests :: "ffi_call list \<Rightarrow> ffi_call list" where
  "requests cs = filter (\<lambda>c. \<not> is_release c) cs"

text \<open>The calls made between an earlier world and a later one.\<close>

definition new_calls :: "'e world \<Rightarrow> 'e world \<Rightarrow> ffi_call list" where
  "new_calls w w' = drop (length (trace w)) (trace w')"

text \<open>
  What one run of \<^verbatim>\<open>get_and_free_string\<close> leaves in the trace when the engine answers
  \<open>r\<close>, and the string it yields.
\<close>

definition header_calls :: "nat option \<Rightarrow> bool \<Rightarrow> nat \<Rightarrow> string option \<Rightarrow> ffi_call list" where
  "header_calls h is_prebox index r =
     Rkr_frame_get_header_line_cpp h is_prebox index r
       # (case r of None \<Rightarrow> [] | Some s \<Rightarrow> [Rkr_free_string s])"

definition header_line :: "string option \<Rightarrow> string" where
  "header_line r = (case r of None \<Rightarrow> [] | Some s \<Rightarrow> s)"

text \<open>
  What destroying the frame held by an iterator position leaves in the trace, and the
  engine handle of the frame a position holds.
\<close>

definition release_calls :: "Iterator \<Rightarrow> ffi_call list" where
  "release_calls it =
     (case current_frame it of
        None \<Rightarrow> []
      | Some (a, old) \<Rightarrow> (case frame_handle old of None \<Rightarrow> [] | Some p \<Rightarrow> [Free_rkr_frame p]))"

definition held_handle :: "Iterator \<Rightarrow> nat option" where
  "held_handle it = (case current_frame it of None \<Rightarrow> None | Some (a, f) \<Rightarrow> frame_handle f)"

text \<open>
  The engine's side of one run of \<^verbatim>\<open>get_and_free_string\<close> from the engine state \<open>s\<close>: its
  answer for the line, and its state after the request and, for a line that is present,
  the release of the string. Likewise the engine's state after the frame held by an
  iterator position has been destroyed.
\<close>

definition header_step ::
  "'e engine \<Rightarrow> nat option \<Rightarrow> bool \<Rightarrow> nat \<Rightarrow> 'e \<Rightarrow> string option \<times> 'e" where
  "header_step e h is_prebox index s =
     (case rkr_frame_get_header_line_cpp e h is_prebox index s of
        (None, s1) \<Rightarrow> (None, s1)
      | (Some t, s1) \<Rightarrow> (Some t, rkr_free_string e t s1))"

definition release_state :: "'e engine \<Rightarrow> Iterator \<Rightarrow> 'e \<Rightarrow> 'e" where
  "release_state e it s =
     (case current_frame it of
        None \<Rightarrow> s
      | Some (a, old) \<Rightarrow> (case frame_handle old of None \<Rightarrow> s | Some p \<Rightarrow> free_rkr_frame e p s))"

section \<open>A caller of the accessors\<close>

text \<open>
  A caller picks one of the six accessors; \<open>access\<close> runs the one picked and tags its
  value, \<open>accesses\<close> runs a sequence of such calls on the same frame (catching what is
  thrown), and \<open>cached\<close> is the member an accessor returns a reference to.
\<close>

datatype accessor = Cell | Angles | Atoms | Prebox_header | Postbox_header | Has_velocities

datatype accessed =
    Cell_value double3
  | Angles_value double3
  | Atoms_value "Atom list"
  | Prebox_value string2
  | Postbox_value string2
  | Velocities_value bool

fun cached :: "accessor \<Rightarrow> ConFrame \<Rightarrow> accessed" where
  "cached Cell f = Cell_value (cell_cache f)"
| "cached Angles f = Angles_value (angles_cache f)"
| "cached Atoms f = Atoms_value (atoms_cache f)"
| "cached Prebox_header f = Prebox_value (prebox_header_cache f)"
| "cached Postbox_header f = Postbox_value (postbox_header_cache f)"
| "cached Has_velocities f = Velocities_value (has_velocities_cache f)"

fun access ::
  "'e engine \<Rightarrow> accessor \<Rightarrow> ConFrame \<Rightarrow> 'e world \<Rightarrow> (error + accessed) \<times> ConFrame \<times> 'e world" where
  "access e Cell f w = (case cell e f w of (r, fw) \<Rightarrow> (map_sum id Cell_value r, fw))"
| "access e Angles f w = (case angles e f w of (r, fw) \<Rightarrow> (map_sum id Angles_value r, fw))"
| "access e Atoms f w = (case atoms e f w of (r, fw) \<Rightarrow> (map_sum id Atoms_value r, fw))"
| "access e Prebox_header f w =
     (case prebox_header e f w of (r, fw) \<Rightarrow> (map_sum id Prebox_value r, fw))"
| "access e Postbox_header f w =
     (case postbox_header e f w of (r, fw) \<Rightarrow> (map_sum id Postbox_value r, fw))"
| "access e Has_velocities f w =
     (case has_velocities e f w of (r, fw) \<Rightarrow> (map_sum id Velocities_value r, fw))"

fun accesses ::
  "'e engine \<Rightarrow> accessor list \<Rightarrow> ConFrame \<Rightarrow> 'e world
     \<Rightarrow> (error + accessed) list \<times> ConFrame \<times> 'e world" where
  "accesses e [] f w = ([], f, w)"
| "accesses e (a # as) f w =
     (case access e a f w of
        (r, f1, w1) \<Rightarrow>
          (case accesses e as f1 w1 of (rs, f2, w2) \<Rightarrow> (r # rs, f2, w2)))"

section \<open>An engine to run the wrapper on\<close>

text \<open>
  The engine is a parameter, so running the wrapper on a concrete input needs a value for
  it. \<open>sim_engine\<close> serves one file; its state is the list of the frame handles not yet
  read from it. Its frames have two atoms and one header line, \<^verbatim>\<open>generated\<close>, the first
  of the pre-box block. It answers a null handle with null or \<open>-1\<close>.
\<close>

definition sim_atom :: "nat \<Rightarrow> CAtom" where
  "sim_atom i =
     \<lparr>c_atomic_number = 29, c_x = of_nat i, c_y = 0, c_z = 0, c_atom_id = of_nat i,
      c_mass = 63, c_is_fixed = False, c_vx = 0, c_vy = 0, c_vz = 0,
      c_has_velocity = False\<rparr>"

definition sim_c_frame :: "nat \<Rightarrow> CFrame" where
  "sim_c_frame p =
     \<lparr>c_cell = (of_nat p, of_nat p, of_nat p), c_angles = (90, 90, 90),
      c_has_velocities = False, c_num_atoms = 2, c_atoms = sim_atom\<rparr>"

definition sim_engine :: "nat list engine" where
  "sim_engine =
     \<lparr>read_con_file_iterator = (\<lambda>path s. (if path = [] then None else Some 1, s)),
      free_con_frame_iterator = (\<lambda>p s. s),
      con_frame_iterator_next =
        (\<lambda>p s. case p of
                  None \<Rightarrow> (None, s)
                | Some _ \<Rightarrow> (case s of [] \<Rightarrow> (None, []) | h # t \<Rightarrow> (Some h, t))),
      free_rkr_frame = (\<lambda>p s. s),
      rkr_frame_to_c_frame = (\<lambda>h s. (map_option sim_c_frame h, s)),
      free_c_frame = (\<lambda>c s. s),
      rkr_frame_get_header_line_cpp =
        (\<lambda>h is_prebox index s.
           (if h \<noteq> None \<and> is_prebox \<and> index = 0 then Some ''generated'' else None, s)),
      rkr_free_string = (\<lambda>t s. s),
      create_writer_from_path_c = (\<lambda>path s. (if path = [] then None else Some 5, s)),
      create_writer_from_path_with_precision_c =
        (\<lambda>path precision s. (if path = [] then None else Some 6, s)),
      free_rkr_writer = (\<lambda>p s. s),
      rkr_writer_extend =
        (\<lambda>wh hs n s. (if wh = None \<or> None \<in> set hs then - 1 else 0, s)),
      rkr_frame_new = (\<lambda>c a p0 p1 q0 q1 s. (Some 3, s)),
      free_rkr_frame_builder = (\<lambda>p s. s),
      rkr_frame_add_atom =
        (\<lambda>h symbol xyz fixed ident m s. (if h = None \<or> symbol = [] then - 1 else 0, s)),
      rkr_frame_add_atom_with_velocity =
        (\<lambda>h symbol xyz fixed ident m v s. (if h = None \<or> symbol = [] then - 1 else 0, s)),
      rkr_frame_builder_build = (\<lambda>h s. (map_option (\<lambda>p. 8) h, s))\<rparr>"

text \<open>The world before any call, with the frames \<open>fs\<close> in the file.\<close>

definition sim_world :: "nat list \<Rightarrow> nat list world" where
  "sim_world fs = \<lparr>engine_state = fs, trace = [], heap_next = 0\<rparr>"

text \<open>The same engine with every snapshot request refused.\<close>

definition no_snapshot_engine :: "nat list engine" where
  "no_snapshot_engine = sim_engine\<lparr>rkr_frame_to_c_frame := (\<lambda>h s. (None, s))\<rparr>"

text \<open>The same engine with no header line in any frame.\<close>

definition no_header_engine :: "nat list engine" where
  "no_header_engine = sim_engine\<lparr>rkr_frame_get_header_line_cpp := (\<lambda>h b i s. (None, s))\<rparr>"

text \<open>
  The same engine with its state read as the output file: the handles of the frames
  written so far. A batch it accepts is appended.
\<close>

definition file_engine :: "nat list engine" where
  "file_engine =
     sim_engine\<lparr>rkr_writer_extend :=
       (\<lambda>wh hs n s. if wh = None \<or> None \<in> set hs then (- 1, s) else (0, s @ map the hs))\<rparr>"

text \<open>The same engine with a builder interface that refuses every build.\<close>

definition failing_build_engine :: "nat list engine" where
  "failing_build_engine = sim_engine\<lparr>rkr_frame_builder_build := (\<lambda>h s. (None, s))\<rparr>"

text \<open>Indeterminate contents for the two arrays of a fresh ConFrame.\<close>

definition junk :: "double3 \<times> double3" where
  "junk = ((7, 7, 7), (9, 9, 9))"

text \<open>
  An iterator position of \<open>sim_engine\<close> that holds the frame \<open>h\<close> at heap address 0, and
  the world after that frame has been allocated, with the frames \<open>fs\<close> still to be read.
\<close>

definition holding :: "nat \<Rightarrow> Iterator" where
  "holding h = \<lparr>it_iterator_ptr = Some 1, current_frame = Some (0, ConFrame_ctor junk (Some h))\<rparr>"

definition sim_world_after :: "nat list \<Rightarrow> nat list world" where
  "sim_world_after fs = \<lparr>engine_state = fs, trace = [], heap_next = 1\<rparr>"


section \<open>The foreign calls and the trace\<close>

lemma ffi_eq:
  "ffi k f w = (r, w') \<longleftrightarrow>
     (\<exists>s. f (engine_state w) = (r, s) \<and> w' = w\<lparr>engine_state := s, trace := trace w @ [k r]\<rparr>)"
  by (auto simp: ffi_def split: prod.splits)

lemma ffi_trace: "ffi k f w = (r, w') \<Longrightarrow> trace w' = trace w @ [k r]"
  by (auto simp: ffi_eq)

lemma ffi_result: "ffi k f w = (r, w') \<Longrightarrow> r = fst (f (engine_state w))"
  by (auto simp: ffi_eq)

lemma ffi_unfold:
  "ffi k f w =
     (fst (f (engine_state w)),
      w\<lparr>engine_state := snd (f (engine_state w)),
        trace := trace w @ [k (fst (f (engine_state w)))]\<rparr>)"
  by (simp add: ffi_def split: prod.splits)

lemma ffi_void_trace: "trace (ffi_void c f w) = trace w @ [c]"
  by (simp add: ffi_void_def)

lemma new_calls_append: "trace w' = trace w @ d \<Longrightarrow> new_calls w w' = d"
  by (simp add: new_calls_def)

section \<open>Materialization\<close>

lemma get_and_free_string_calls:
  assumes "get_and_free_string e h b i w = (s, w')"
  shows "\<exists>r. trace w' = trace w @ header_calls h b i r \<and> s = header_line r"
proof -
  obtain r wa where q: "ffi (Rkr_frame_get_header_line_cpp h b i)
      (rkr_frame_get_header_line_cpp e h b i) w = (r, wa)"
    by fastforce
  have "trace w' = trace w @ header_calls h b i r \<and> s = header_line r"
    using assms q ffi_trace[OF q]
    by (cases r) (auto simp: get_and_free_string_def header_calls_def header_line_def ffi_void_trace)
  then show ?thesis by blast
qed

lemma cache_data_cached: "is_cached f \<Longrightarrow> cache_data e f w = (Inr (), f, w)"
  by (simp add: cache_data_def)

lemma get_and_free_string_run:
  "get_and_free_string e h b i w =
     (header_line (fst (header_step e h b i (engine_state w))),
      w\<lparr>engine_state := snd (header_step e h b i (engine_state w)),
        trace := trace w @ header_calls h b i (fst (header_step e h b i (engine_state w)))\<rparr>)"
  by (simp add: get_and_free_string_def header_step_def header_line_def header_calls_def
        ffi_def ffi_void_def split: prod.splits option.splits)

lemma cache_data_run:
  assumes "\<not> is_cached f"
    and "rkr_frame_to_c_frame e (frame_handle f) (engine_state w) = (Some c, s0)"
    and "header_step e (frame_handle f) True 0 (free_c_frame e c s0) = (r0, s1)"
    and "header_step e (frame_handle f) True 1 s1 = (r1, s2)"
    and "header_step e (frame_handle f) False 0 s2 = (r2, s3)"
    and "header_step e (frame_handle f) False 1 s3 = (r3, s4)"
  shows "cache_data e f w =
     (Inr (),
      f\<lparr>cell_cache := c_cell c, angles_cache := c_angles c,
        has_velocities_cache := c_has_velocities c,
        atoms_cache := atoms_cache f
          @ map (\<lambda>i. Atom_of_CAtom (c_atoms c i)) [0 ..< c_num_atoms c],
        prebox_header_cache := (header_line r0, header_line r1),
        postbox_header_cache := (header_line r2, header_line r3),
        is_cached := True\<rparr>,
      w\<lparr>engine_state := s4,
        trace := trace w @ [Rkr_frame_to_c_frame (frame_handle f) (Some c), Free_c_frame c]
          @ header_calls (frame_handle f) True 0 r0 @ header_calls (frame_handle f) True 1 r1
          @ header_calls (frame_handle f) False 0 r2 @ header_calls (frame_handle f) False 1 r3\<rparr>)"
  using assms
  by (simp add: cache_data_def ffi_def ffi_void_def get_and_free_string_run Let_def)

lemma cache_data_null_run:
  assumes "\<not> is_cached f"
    and "rkr_frame_to_c_frame e (frame_handle f) (engine_state w) = (None, s0)"
  shows "cache_data e f w =
     (Inl (Runtime_error ''Failed to extract CFrame from handle for caching.''), f,
      w\<lparr>engine_state := s0,
        trace := trace w @ [Rkr_frame_to_c_frame (frame_handle f) None]\<rparr>)"
  using assms by (simp add: cache_data_def ffi_def)

lemma cache_data_success:
  assumes "\<not> is_cached f" and "cache_data e f w = (Inr x, f1, w1)"
  shows "\<exists>c r0 r1 r2 r3.
           fst (rkr_frame_to_c_frame e (frame_handle f) (engine_state w)) = Some c \<and>
           trace w1 = trace w @ [Rkr_frame_to_c_frame (frame_handle f) (Some c), Free_c_frame c]
             @ header_calls (frame_handle f) True 0 r0 @ header_calls (frame_handle f) True 1 r1
             @ header_calls (frame_handle f) False 0 r2 @ header_calls (frame_handle f) False 1 r3 \<and>
           f1 = f\<lparr>cell_cache := c_cell c, angles_cache := c_angles c,
                  has_velocities_cache := c_has_velocities c,
                  atoms_cache := atoms_cache f
                    @ map (\<lambda>i. Atom_of_CAtom (c_atoms c i)) [0 ..< c_num_atoms c],
                  prebox_header_cache := (header_line r0, header_line r1),
                  postbox_header_cache := (header_line r2, header_line r3),
                  is_cached := True\<rparr>"
proof -
  let ?h = "frame_handle f"
  from assms obtain c wa where a: "ffi (Rkr_frame_to_c_frame ?h) (rkr_frame_to_c_frame e ?h) w = (Some c, wa)"
    by (auto simp: cache_data_def split: prod.splits option.splits)
  define wb where "wb = ffi_void (Free_c_frame c) (free_c_frame e c) wa"
  obtain p0 w3 where g0: "get_and_free_string e ?h True 0 wb = (p0, w3)" by fastforce
  obtain p1 w4 where g1: "get_and_free_string e ?h True 1 w3 = (p1, w4)" by fastforce
  obtain q0 w5 where g2: "get_and_free_string e ?h False 0 w4 = (q0, w5)" by fastforce
  obtain q1 w6 where g3: "get_and_free_string e ?h False 1 w5 = (q1, w6)" by fastforce
  from assms a g0 g1 g2 g3 have w1: "w1 = w6"
    and f1: "f1 = f\<lparr>cell_cache := c_cell c, angles_cache := c_angles c,
                  has_velocities_cache := c_has_velocities c,
                  atoms_cache := atoms_cache f
                    @ map (\<lambda>i. Atom_of_CAtom (c_atoms c i)) [0 ..< c_num_atoms c],
                  prebox_header_cache := (p0, p1),
                  postbox_header_cache := (q0, q1),
                  is_cached := True\<rparr>"
    by (simp_all add: cache_data_def wb_def Let_def)
  have ta: "trace wa = trace w @ [Rkr_frame_to_c_frame ?h (Some c)]" using ffi_trace[OF a] .
  have tb: "trace wb = trace wa @ [Free_c_frame c]" by (simp add: wb_def ffi_void_trace)
  from get_and_free_string_calls[OF g0] obtain r0 where
    d0: "trace w3 = trace wb @ header_calls ?h True 0 r0" "p0 = header_line r0" by blast
  from get_and_free_string_calls[OF g1] obtain r1 where
    d1: "trace w4 = trace w3 @ header_calls ?h True 1 r1" "p1 = header_line r1" by blast
  from get_and_free_string_calls[OF g2] obtain r2 where
    d2: "trace w5 = trace w4 @ header_calls ?h False 0 r2" "q0 = header_line r2" by blast
  from get_and_free_string_calls[OF g3] obtain r3 where
    d3: "trace w6 = trace w5 @ header_calls ?h False 1 r3" "q1 = header_line r3" by blast
  have "trace w1 = trace w @ [Rkr_frame_to_c_frame ?h (Some c), Free_c_frame c]
             @ header_calls ?h True 0 r0 @ header_calls ?h True 1 r1
             @ header_calls ?h False 0 r2 @ header_calls ?h False 1 r3"
    by (simp add: w1 d3 d2 d1 d0 tb ta)
  moreover have "fst (rkr_frame_to_c_frame e ?h (engine_state w)) = Some c"
    using ffi_result[OF a] by simp
  ultimately show ?thesis using f1 d0(2) d1(2) d2(2) d3(2) by blast
qed

lemma cache_data_failure:
  assumes "cache_data e f w = (Inl x, f1, w1)"
  shows "\<not> is_cached f \<and> f1 = f
     \<and> x = Runtime_error ''Failed to extract CFrame from handle for caching.''
     \<and> trace w1 = trace w @ [Rkr_frame_to_c_frame (frame_handle f) None]
     \<and> fst (rkr_frame_to_c_frame e (frame_handle f) (engine_state w)) = None"
proof -
  let ?h = "frame_handle f"
  obtain r wa where a: "ffi (Rkr_frame_to_c_frame ?h) (rkr_frame_to_c_frame e ?h) w = (r, wa)"
    by fastforce
  from assms have nc: "\<not> is_cached f" by (auto simp: cache_data_def)
  from assms a nc have "r = None"
    by (cases r) (auto simp: cache_data_def Let_def split: prod.splits)
  with assms a nc ffi_trace[OF a] ffi_result[OF a] show ?thesis
    by (simp add: cache_data_def)
qed

lemma cache_data_null_snapshot:
  assumes "\<not> is_cached f" and "fst (rkr_frame_to_c_frame e (frame_handle f) (engine_state w)) = None"
  shows "\<exists>w1. cache_data e f w
     = (Inl (Runtime_error ''Failed to extract CFrame from handle for caching.''), f, w1)"
  using assms by (auto simp: cache_data_def ffi_def split: prod.splits)

lemma access_cache_data:
  "access e a f w =
     (case cache_data e f w of
        (Inl x, f', w') \<Rightarrow> (Inl x, f', w')
      | (Inr u, f', w') \<Rightarrow> (Inr (cached a f'), f', w'))"
  by (cases a) (auto simp: cell_def angles_def atoms_def prebox_header_def postbox_header_def
        has_velocities_def split: prod.splits sum.splits)

lemma access_cached: "is_cached f \<Longrightarrow> access e a f w = (Inr (cached a f), f, w)"
  by (simp add: access_cache_data cache_data_cached)

lemma accesses_cached:
  "is_cached f \<Longrightarrow> accesses e as f w = (map (\<lambda>b. Inr (cached b f)) as, f, w)"
  by (induction as) (simp_all add: access_cached)

lemma sim_snapshot:
  "rkr_frame_to_c_frame sim_engine (Some p) s = (Some (sim_c_frame p), s)"
  "rkr_frame_to_c_frame no_header_engine (Some p) s = (Some (sim_c_frame p), s)"
  "free_c_frame sim_engine c s = s"
  "free_c_frame no_header_engine c s = s"
  by (simp_all add: sim_engine_def no_header_engine_def)

lemma sim_header_step:
  "header_step sim_engine (Some p) True 0 s = (Some ''generated'', s)"
  "header_step sim_engine (Some p) True 1 s = (None, s)"
  "header_step sim_engine (Some p) False 0 s = (None, s)"
  "header_step sim_engine (Some p) False 1 s = (None, s)"
  "header_step no_header_engine h b i s = (None, s)"
  by (simp_all add: header_step_def sim_engine_def no_header_engine_def)

lemma header_calls_queries:
  "filter is_header_query (header_calls h b i r) = [Rkr_frame_get_header_line_cpp h b i r]"
  "filter is_snapshot_query (header_calls h b i r) = []"
  by (cases r; simp add: header_calls_def)+

lemma header_calls_member:
  "Rkr_frame_get_header_line_cpp h b i a \<in> set (header_calls h' b' i' r)
     \<longleftrightarrow> h = h' \<and> b = b' \<and> i = i' \<and> a = r"
  by (cases r) (auto simp: header_calls_def)

text \<open>
  Claim C1, as amended. The first call to any of the six accessors of a ConFrame that is
  not yet materialized makes exactly one snapshot request. If the engine answers it with
  null, the call throws after that single request, the frame is left as it was, and
  nothing is cached (so a later call asks again). If the engine answers it with a
  snapshot, the call releases the snapshot and then asks for each of the four header
  lines once, in the order pre-box 0, pre-box 1, post-box 0, post-box 1, releasing every
  line that is present; it makes no other call. It leaves the engine in the state these
  calls lead to and the frame with the snapshot's numbers and the four lines cached,
  returns the member asked for, and from then on every sequence of accessor calls
  returns the cached members and leaves the world, engine and trace included, untouched.
\<close>

theorem materialize_once:
  assumes "\<not> is_cached f" and "access e a f w = (r, f1, w1)"
  shows "trace w1 = trace w @ new_calls w w1
     \<and> length (filter is_snapshot_query (new_calls w w1)) = 1
     \<and> (case r of
          Inl x \<Rightarrow>
            fst (rkr_frame_to_c_frame e (frame_handle f) (engine_state w)) = None
            \<and> f1 = f
            \<and> new_calls w w1 = [Rkr_frame_to_c_frame (frame_handle f) None]
            \<and> w1 = w\<lparr>engine_state :=
                        snd (rkr_frame_to_c_frame e (frame_handle f) (engine_state w)),
                      trace := trace w @ [Rkr_frame_to_c_frame (frame_handle f) None]\<rparr>
        | Inr v \<Rightarrow>
            fst (rkr_frame_to_c_frame e (frame_handle f) (engine_state w)) \<noteq> None
            \<and> v = cached a f1
            \<and> length (filter is_header_query (new_calls w w1)) = 4
            \<and> (\<exists>c s0 r0 s1 r1 s2 r2 s3 r3 s4.
                  rkr_frame_to_c_frame e (frame_handle f) (engine_state w) = (Some c, s0)
                  \<and> header_step e (frame_handle f) True 0 (free_c_frame e c s0) = (r0, s1)
                  \<and> header_step e (frame_handle f) True 1 s1 = (r1, s2)
                  \<and> header_step e (frame_handle f) False 0 s2 = (r2, s3)
                  \<and> header_step e (frame_handle f) False 1 s3 = (r3, s4)
                  \<and> new_calls w w1 =
                      [Rkr_frame_to_c_frame (frame_handle f) (Some c), Free_c_frame c]
                      @ header_calls (frame_handle f) True 0 r0
                      @ header_calls (frame_handle f) True 1 r1
                      @ header_calls (frame_handle f) False 0 r2
                      @ header_calls (frame_handle f) False 1 r3
                  \<and> w1 = w\<lparr>engine_state := s4, trace := trace w @ new_calls w w1\<rparr>
                  \<and> f1 = f\<lparr>cell_cache := c_cell c, angles_cache := c_angles c,
                           has_velocities_cache := c_has_velocities c,
                           atoms_cache := atoms_cache f
                             @ map (\<lambda>i. Atom_of_CAtom (c_atoms c i)) [0 ..< c_num_atoms c],
                           prebox_header_cache := (header_line r0, header_line r1),
                           postbox_header_cache := (header_line r2, header_line r3),
                           is_cached := True\<rparr>)
            \<and> (\<forall>as. accesses e as f1 w1 = (map (\<lambda>b. Inr (cached b f1)) as, f1, w1)))"
proof -
  let ?h = "frame_handle f"
  obtain a0 s0 where q: "rkr_frame_to_c_frame e ?h (engine_state w) = (a0, s0)" by fastforce
  show ?thesis
  proof (cases a0)
    case None
    from cache_data_null_run[OF assms(1) q[unfolded None]] assms(2)
    have r: "r = Inl (Runtime_error ''Failed to extract CFrame from handle for caching.'')"
      and f1: "f1 = f"
      and w1: "w1 = w\<lparr>engine_state := s0, trace := trace w @ [Rkr_frame_to_c_frame ?h None]\<rparr>"
      by (auto simp: access_cache_data)
    from w1 have n: "new_calls w w1 = [Rkr_frame_to_c_frame ?h None]"
      by (simp add: new_calls_def)
    show ?thesis using r f1 w1 n q None by simp
  next
    case (Some c)
    obtain r0 s1 where h0: "header_step e ?h True 0 (free_c_frame e c s0) = (r0, s1)" by fastforce
    obtain r1 s2 where h1: "header_step e ?h True 1 s1 = (r1, s2)" by fastforce
    obtain r2 s3 where h2: "header_step e ?h False 0 s2 = (r2, s3)" by fastforce
    obtain r3 s4 where h3: "header_step e ?h False 1 s3 = (r3, s4)" by fastforce
    let ?d = "[Rkr_frame_to_c_frame ?h (Some c), Free_c_frame c]
                      @ header_calls ?h True 0 r0 @ header_calls ?h True 1 r1
                      @ header_calls ?h False 0 r2 @ header_calls ?h False 1 r3"
    let ?f = "f\<lparr>cell_cache := c_cell c, angles_cache := c_angles c,
                           has_velocities_cache := c_has_velocities c,
                           atoms_cache := atoms_cache f
                             @ map (\<lambda>i. Atom_of_CAtom (c_atoms c i)) [0 ..< c_num_atoms c],
                           prebox_header_cache := (header_line r0, header_line r1),
                           postbox_header_cache := (header_line r2, header_line r3),
                           is_cached := True\<rparr>"
    from cache_data_run[OF assms(1) q[unfolded Some] h0 h1 h2 h3] assms(2)
    have r: "r = Inr (cached a f1)" and f1: "f1 = ?f"
      and w1: "w1 = w\<lparr>engine_state := s4, trace := trace w @ ?d\<rparr>"
      by (auto simp: access_cache_data)
    from w1 have n: "new_calls w w1 = ?d" by (simp add: new_calls_def)
    have c1: "is_cached f1" by (simp add: f1)
    have t: "trace w1 = trace w @ new_calls w w1" using w1 n by simp
    have k1: "length (filter is_snapshot_query (new_calls w w1)) = 1"
      unfolding n by (simp add: header_calls_queries)
    have k4: "length (filter is_header_query (new_calls w w1)) = 4"
      unfolding n by (simp add: header_calls_queries)
    have ex: "\<exists>c s0 r0 s1 r1 s2 r2 s3 r3 s4.
                  rkr_frame_to_c_frame e ?h (engine_state w) = (Some c, s0)
                  \<and> header_step e ?h True 0 (free_c_frame e c s0) = (r0, s1)
                  \<and> header_step e ?h True 1 s1 = (r1, s2)
                  \<and> header_step e ?h False 0 s2 = (r2, s3)
                  \<and> header_step e ?h False 1 s3 = (r3, s4)
                  \<and> new_calls w w1 =
                      [Rkr_frame_to_c_frame ?h (Some c), Free_c_frame c]
                      @ header_calls ?h True 0 r0 @ header_calls ?h True 1 r1
                      @ header_calls ?h False 0 r2 @ header_calls ?h False 1 r3
                  \<and> w1 = w\<lparr>engine_state := s4, trace := trace w @ new_calls w w1\<rparr>
                  \<and> f1 = f\<lparr>cell_cache := c_cell c, angles_cache := c_angles c,
                           has_velocities_cache := c_has_velocities c,
                           atoms_cache := atoms_cache f
                             @ map (\<lambda>i. Atom_of_CAtom (c_atoms c i)) [0 ..< c_num_atoms c],
                           prebox_header_cache := (header_line r0, header_line r1),
                           postbox_header_cache := (header_line r2, header_line r3),
                           is_cached := True\<rparr>"
      using q[unfolded Some] h0 h1 h2 h3 n w1[folded n] f1 by blast
    have nn: "fst (rkr_frame_to_c_frame e ?h (engine_state w)) \<noteq> None"
      using q Some by simp
    show ?thesis
      unfolding r using t k1 k4 ex nn accesses_cached[OF c1, of e _ w1] by simp
  qed
qed

text \<open>The theorem at a frame of \<open>sim_engine\<close>.\<close>

theorem materialize_once_witness:
  "\<not> is_cached (ConFrame_ctor junk (Some 1))
   \<and> (\<exists>f1 w1. access sim_engine Cell (ConFrame_ctor junk (Some 1)) (sim_world [])
                = (Inr (Cell_value (1, 1, 1)), f1, w1)
        \<and> length (filter is_snapshot_query (new_calls (sim_world []) w1)) = 1
        \<and> length (filter is_header_query (new_calls (sim_world []) w1)) = 4
        \<and> new_calls (sim_world []) w1 =
            [Rkr_frame_to_c_frame (Some 1) (Some (sim_c_frame 1)), Free_c_frame (sim_c_frame 1),
             Rkr_frame_get_header_line_cpp (Some 1) True 0 (Some ''generated''),
             Rkr_free_string ''generated'',
             Rkr_frame_get_header_line_cpp (Some 1) True 1 None,
             Rkr_frame_get_header_line_cpp (Some 1) False 0 None,
             Rkr_frame_get_header_line_cpp (Some 1) False 1 None]
        \<and> engine_state w1 = []
        \<and> accesses sim_engine [Atoms, Cell, Atoms] f1 w1
            = ([Inr (cached Atoms f1), Inr (cached Cell f1), Inr (cached Atoms f1)], f1, w1))"
proof -
  have n: "\<not> is_cached (ConFrame_ctor junk (Some 1))" by (simp add: ConFrame_ctor_def)
  have h: "frame_handle (ConFrame_ctor junk (Some 1)) = Some 1" by (simp add: ConFrame_ctor_def)
  have s: "engine_state (sim_world []) = []" by (simp add: sim_world_def)
  obtain r f1 w1 where
    ev: "access sim_engine Cell (ConFrame_ctor junk (Some 1)) (sim_world []) = (r, f1, w1)"
    by (rule prod_cases3)
  have "fst (access sim_engine Cell (ConFrame_ctor junk (Some 1)) (sim_world []))
          = Inr (Cell_value (1, 1, 1))"
    by (simp add: cell_def cache_data_def ffi_def ffi_void_def get_and_free_string_def
          sim_engine_def sim_world_def ConFrame_ctor_def junk_def sim_c_frame_def)
  with ev have r: "r = Inr (Cell_value (1, 1, 1))" by simp
  note m = materialize_once[OF n ev, unfolded r h s sim_snapshot sim_header_step]
  from m have
    k: "length (filter is_snapshot_query (new_calls (sim_world []) w1)) = 1
        \<and> length (filter is_header_query (new_calls (sim_world []) w1)) = 4"
    and l: "\<forall>as. accesses sim_engine as f1 w1 = (map (\<lambda>b. Inr (cached b f1)) as, f1, w1)"
    and x: "new_calls (sim_world []) w1 =
            [Rkr_frame_to_c_frame (Some 1) (Some (sim_c_frame 1)), Free_c_frame (sim_c_frame 1),
             Rkr_frame_get_header_line_cpp (Some 1) True 0 (Some ''generated''),
             Rkr_free_string ''generated'',
             Rkr_frame_get_header_line_cpp (Some 1) True 1 None,
             Rkr_frame_get_header_line_cpp (Some 1) False 0 None,
             Rkr_frame_get_header_line_cpp (Some 1) False 1 None]
        \<and> engine_state w1 = []"
    by (auto simp: header_calls_def)
  from l have "accesses sim_engine [Atoms, Cell, Atoms] f1 w1
      = (map (\<lambda>b. Inr (cached b f1)) [Atoms, Cell, Atoms], f1, w1)"
    by (rule spec)
  then have m: "accesses sim_engine [Atoms, Cell, Atoms] f1 w1
      = ([Inr (cached Atoms f1), Inr (cached Cell f1), Inr (cached Atoms f1)], f1, w1)"
    by (simp only: list.map)
  from n ev r k x m show ?thesis by blast
qed

text \<open>
  Claim C1 as it is written fails where the engine refuses the snapshot: the first call
  makes the snapshot request and no header request, and the second call asks the engine
  again.
\<close>

theorem materialize_once_counterexample:
  "fst (cell no_snapshot_engine (ConFrame_ctor junk (Some 1)) (sim_world []))
     = Inl (Runtime_error ''Failed to extract CFrame from handle for caching.'')
   \<and> fst (snd (cell no_snapshot_engine (ConFrame_ctor junk (Some 1)) (sim_world [])))
     = ConFrame_ctor junk (Some 1)
   \<and> trace (snd (snd (cell no_snapshot_engine (ConFrame_ctor junk (Some 1)) (sim_world []))))
     = [Rkr_frame_to_c_frame (Some 1) None]
   \<and> trace (snd (snd (cell no_snapshot_engine (ConFrame_ctor junk (Some 1))
        (snd (snd (cell no_snapshot_engine (ConFrame_ctor junk (Some 1)) (sim_world [])))))))
     = [Rkr_frame_to_c_frame (Some 1) None, Rkr_frame_to_c_frame (Some 1) None]"
  by (simp add: cell_def cache_data_def ffi_def no_snapshot_engine_def
        sim_engine_def sim_world_def ConFrame_ctor_def)

text \<open>
  Claim C4. When a ConFrame is materialized, a header line that the engine reports absent
  (a null answer to the request for that line) leaves the empty string in the matching
  entry of the cache, and the materialization of the rest succeeds all the same: once the
  engine has answered the snapshot request, \<^verbatim>\<open>cache_data\<close> returns normally whatever the
  answers for the header lines are, with cell, angles, velocity flag and atoms copied from
  the snapshot, every header line that is present kept as the engine gave it, every
  absent one empty, and the frame marked as cached.
\<close>

theorem header_absence_degrades:
  assumes "\<not> is_cached f" and "cache_data e f w = (r, f1, w1)"
  shows "(fst (rkr_frame_to_c_frame e (frame_handle f) (engine_state w)) \<noteq> None
            \<longrightarrow> r = Inr () \<and> is_cached f1)
     \<and> (\<forall>c s0 r0 s1 r1 s2 r2 s3 r3 s4.
           rkr_frame_to_c_frame e (frame_handle f) (engine_state w) = (Some c, s0)
           \<and> header_step e (frame_handle f) True 0 (free_c_frame e c s0) = (r0, s1)
           \<and> header_step e (frame_handle f) True 1 s1 = (r1, s2)
           \<and> header_step e (frame_handle f) False 0 s2 = (r2, s3)
           \<and> header_step e (frame_handle f) False 1 s3 = (r3, s4)
           \<longrightarrow> r = Inr ()
             \<and> f1 = f\<lparr>cell_cache := c_cell c, angles_cache := c_angles c,
                      has_velocities_cache := c_has_velocities c,
                      atoms_cache := atoms_cache f
                        @ map (\<lambda>i. Atom_of_CAtom (c_atoms c i)) [0 ..< c_num_atoms c],
                      prebox_header_cache :=
                        (case r0 of None \<Rightarrow> [] | Some t \<Rightarrow> t,
                         case r1 of None \<Rightarrow> [] | Some t \<Rightarrow> t),
                      postbox_header_cache :=
                        (case r2 of None \<Rightarrow> [] | Some t \<Rightarrow> t,
                         case r3 of None \<Rightarrow> [] | Some t \<Rightarrow> t),
                      is_cached := True\<rparr>
             \<and> w1 = w\<lparr>engine_state := s4,
                       trace := trace w
                         @ [Rkr_frame_to_c_frame (frame_handle f) (Some c), Free_c_frame c]
                         @ header_calls (frame_handle f) True 0 r0
                         @ header_calls (frame_handle f) True 1 r1
                         @ header_calls (frame_handle f) False 0 r2
                         @ header_calls (frame_handle f) False 1 r3\<rparr>)
     \<and> (Rkr_frame_get_header_line_cpp (frame_handle f) True 0 None \<in> set (new_calls w w1)
            \<longrightarrow> r = Inr () \<and> is_cached f1 \<and> fst (prebox_header_cache f1) = [])
     \<and> (Rkr_frame_get_header_line_cpp (frame_handle f) True 1 None \<in> set (new_calls w w1)
            \<longrightarrow> r = Inr () \<and> is_cached f1 \<and> snd (prebox_header_cache f1) = [])
     \<and> (Rkr_frame_get_header_line_cpp (frame_handle f) False 0 None \<in> set (new_calls w w1)
            \<longrightarrow> r = Inr () \<and> is_cached f1 \<and> fst (postbox_header_cache f1) = [])
     \<and> (Rkr_frame_get_header_line_cpp (frame_handle f) False 1 None \<in> set (new_calls w w1)
            \<longrightarrow> r = Inr () \<and> is_cached f1 \<and> snd (postbox_header_cache f1) = [])"
proof -
  let ?h = "frame_handle f"
  have full: "\<forall>c s0 r0 s1 r1 s2 r2 s3 r3 s4.
           rkr_frame_to_c_frame e ?h (engine_state w) = (Some c, s0)
           \<and> header_step e ?h True 0 (free_c_frame e c s0) = (r0, s1)
           \<and> header_step e ?h True 1 s1 = (r1, s2)
           \<and> header_step e ?h False 0 s2 = (r2, s3)
           \<and> header_step e ?h False 1 s3 = (r3, s4)
           \<longrightarrow> r = Inr ()
             \<and> f1 = f\<lparr>cell_cache := c_cell c, angles_cache := c_angles c,
                      has_velocities_cache := c_has_velocities c,
                      atoms_cache := atoms_cache f
                        @ map (\<lambda>i. Atom_of_CAtom (c_atoms c i)) [0 ..< c_num_atoms c],
                      prebox_header_cache :=
                        (case r0 of None \<Rightarrow> [] | Some t \<Rightarrow> t,
                         case r1 of None \<Rightarrow> [] | Some t \<Rightarrow> t),
                      postbox_header_cache :=
                        (case r2 of None \<Rightarrow> [] | Some t \<Rightarrow> t,
                         case r3 of None \<Rightarrow> [] | Some t \<Rightarrow> t),
                      is_cached := True\<rparr>
             \<and> w1 = w\<lparr>engine_state := s4,
                       trace := trace w
                         @ [Rkr_frame_to_c_frame ?h (Some c), Free_c_frame c]
                         @ header_calls ?h True 0 r0 @ header_calls ?h True 1 r1
                         @ header_calls ?h False 0 r2 @ header_calls ?h False 1 r3\<rparr>"
  proof (intro allI impI, elim conjE)
    fix c s0 r0 s1 r1 s2 r2 s3 r3 s4
    assume q: "rkr_frame_to_c_frame e ?h (engine_state w) = (Some c, s0)"
      and h0: "header_step e ?h True 0 (free_c_frame e c s0) = (r0, s1)"
      and h1: "header_step e ?h True 1 s1 = (r1, s2)"
      and h2: "header_step e ?h False 0 s2 = (r2, s3)"
      and h3: "header_step e ?h False 1 s3 = (r3, s4)"
    from cache_data_run[OF assms(1) q h0 h1 h2 h3] assms(2)
    show "r = Inr ()
             \<and> f1 = f\<lparr>cell_cache := c_cell c, angles_cache := c_angles c,
                      has_velocities_cache := c_has_velocities c,
                      atoms_cache := atoms_cache f
                        @ map (\<lambda>i. Atom_of_CAtom (c_atoms c i)) [0 ..< c_num_atoms c],
                      prebox_header_cache :=
                        (case r0 of None \<Rightarrow> [] | Some t \<Rightarrow> t,
                         case r1 of None \<Rightarrow> [] | Some t \<Rightarrow> t),
                      postbox_header_cache :=
                        (case r2 of None \<Rightarrow> [] | Some t \<Rightarrow> t,
                         case r3 of None \<Rightarrow> [] | Some t \<Rightarrow> t),
                      is_cached := True\<rparr>
             \<and> w1 = w\<lparr>engine_state := s4,
                       trace := trace w
                         @ [Rkr_frame_to_c_frame ?h (Some c), Free_c_frame c]
                         @ header_calls ?h True 0 r0 @ header_calls ?h True 1 r1
                         @ header_calls ?h False 0 r2 @ header_calls ?h False 1 r3\<rparr>"
      by (auto simp: header_line_def)
  qed
  have rest: "(fst (rkr_frame_to_c_frame e ?h (engine_state w)) \<noteq> None
            \<longrightarrow> r = Inr () \<and> is_cached f1)
     \<and> (Rkr_frame_get_header_line_cpp ?h True 0 None \<in> set (new_calls w w1)
            \<longrightarrow> r = Inr () \<and> is_cached f1 \<and> fst (prebox_header_cache f1) = [])
     \<and> (Rkr_frame_get_header_line_cpp ?h True 1 None \<in> set (new_calls w w1)
            \<longrightarrow> r = Inr () \<and> is_cached f1 \<and> snd (prebox_header_cache f1) = [])
     \<and> (Rkr_frame_get_header_line_cpp ?h False 0 None \<in> set (new_calls w w1)
            \<longrightarrow> r = Inr () \<and> is_cached f1 \<and> fst (postbox_header_cache f1) = [])
     \<and> (Rkr_frame_get_header_line_cpp ?h False 1 None \<in> set (new_calls w w1)
            \<longrightarrow> r = Inr () \<and> is_cached f1 \<and> snd (postbox_header_cache f1) = [])"
  proof (cases r)
    case (Inl x)
    from cache_data_failure[OF assms(2)[unfolded Inl]] show ?thesis
      by (simp add: new_calls_append)
  next
    case (Inr u)
    from cache_data_success[OF assms(1) assms(2)[unfolded Inr]] obtain c r0 r1 r2 r3 where
      t: "trace w1 = trace w @ [Rkr_frame_to_c_frame ?h (Some c), Free_c_frame c]
             @ header_calls ?h True 0 r0 @ header_calls ?h True 1 r1
             @ header_calls ?h False 0 r2 @ header_calls ?h False 1 r3"
      and c1: "is_cached f1"
      and p: "prebox_header_cache f1 = (header_line r0, header_line r1)"
      and q: "postbox_header_cache f1 = (header_line r2, header_line r3)"
      by auto
    show ?thesis
      unfolding new_calls_append[OF t] using Inr c1 p q
      by (auto simp: header_calls_member header_line_def)
  qed
  from full rest show ?thesis by blast
qed

text \<open>
  The theorem at a frame of \<open>sim_engine\<close>, whose first pre-box line is present and whose
  other three are absent, and at a frame of an engine with no header lines at all.
\<close>

theorem header_absence_degrades_witness:
  "\<not> is_cached (ConFrame_ctor junk (Some 1))
   \<and> rkr_frame_to_c_frame sim_engine (frame_handle (ConFrame_ctor junk (Some 1)))
        (engine_state (sim_world [])) = (Some (sim_c_frame 1), [])
   \<and> header_step sim_engine (frame_handle (ConFrame_ctor junk (Some 1))) True 0
        (free_c_frame sim_engine (sim_c_frame 1) []) = (Some ''generated'', [])
   \<and> header_step sim_engine (frame_handle (ConFrame_ctor junk (Some 1))) True 1 [] = (None, [])
   \<and> header_step sim_engine (frame_handle (ConFrame_ctor junk (Some 1))) False 0 [] = (None, [])
   \<and> header_step sim_engine (frame_handle (ConFrame_ctor junk (Some 1))) False 1 [] = (None, [])
   \<and> cache_data sim_engine (ConFrame_ctor junk (Some 1)) (sim_world []) =
       (Inr (),
        \<lparr>frame_handle = Some 1, is_cached = True,
         atoms_cache = map (\<lambda>i. Atom_of_CAtom (sim_atom i)) [0 ..< 2],
         cell_cache = (1, 1, 1), angles_cache = (90, 90, 90),
         prebox_header_cache = (''generated'', []), postbox_header_cache = ([], []),
         has_velocities_cache = False\<rparr>,
        \<lparr>engine_state = [],
         trace =
           [Rkr_frame_to_c_frame (Some 1) (Some (sim_c_frame 1)), Free_c_frame (sim_c_frame 1),
            Rkr_frame_get_header_line_cpp (Some 1) True 0 (Some ''generated''),
            Rkr_free_string ''generated'',
            Rkr_frame_get_header_line_cpp (Some 1) True 1 None,
            Rkr_frame_get_header_line_cpp (Some 1) False 0 None,
            Rkr_frame_get_header_line_cpp (Some 1) False 1 None],
         heap_next = 0\<rparr>)
   \<and> fst (rkr_frame_to_c_frame no_header_engine (frame_handle (ConFrame_ctor junk (Some 1)))
        (engine_state (sim_world []))) \<noteq> None
   \<and> (\<exists>f1 w1. cache_data no_header_engine (ConFrame_ctor junk (Some 1)) (sim_world [])
                = (Inr (), f1, w1)
        \<and> Rkr_frame_get_header_line_cpp (Some 1) True 0 None \<in> set (new_calls (sim_world []) w1)
        \<and> Rkr_frame_get_header_line_cpp (Some 1) True 1 None \<in> set (new_calls (sim_world []) w1)
        \<and> Rkr_frame_get_header_line_cpp (Some 1) False 0 None \<in> set (new_calls (sim_world []) w1)
        \<and> Rkr_frame_get_header_line_cpp (Some 1) False 1 None \<in> set (new_calls (sim_world []) w1)
        \<and> is_cached f1
        \<and> cell_cache f1 = (1, 1, 1)
        \<and> prebox_header_cache f1 = ([], []) \<and> postbox_header_cache f1 = ([], []))"
proof -
  have n: "\<not> is_cached (ConFrame_ctor junk (Some 1))" by (simp add: ConFrame_ctor_def)
  have h: "frame_handle (ConFrame_ctor junk (Some 1)) = Some 1" by (simp add: ConFrame_ctor_def)
  have st: "engine_state (sim_world []) = []" by (simp add: sim_world_def)
  have q: "rkr_frame_to_c_frame sim_engine (Some 1) [] = (Some (sim_c_frame 1), [])"
    and h0: "header_step sim_engine (Some 1) True 0 (free_c_frame sim_engine (sim_c_frame 1) [])
               = (Some ''generated'', [])"
    and h1: "header_step sim_engine (Some 1) True 1 [] = (None, [])"
    and h2: "header_step sim_engine (Some 1) False 0 [] = (None, [])"
    and h3: "header_step sim_engine (Some 1) False 1 [] = (None, [])"
    by (simp_all only: sim_snapshot sim_header_step)
  obtain r f1 w1 where
    ev: "cache_data sim_engine (ConFrame_ctor junk (Some 1)) (sim_world []) = (r, f1, w1)"
    by (rule prod_cases3)
  note t = header_absence_degrades[OF n ev, unfolded h st, THEN conjunct2, THEN conjunct1,
      rule_format, OF conjI[OF q conjI[OF h0 conjI[OF h1 conjI[OF h2 h3]]]]]
  from t have a: "r = Inr ()"
    and b: "f1 = \<lparr>frame_handle = Some 1, is_cached = True,
         atoms_cache = map (\<lambda>i. Atom_of_CAtom (sim_atom i)) [0 ..< 2],
         cell_cache = (1, 1, 1), angles_cache = (90, 90, 90),
         prebox_header_cache = (''generated'', []), postbox_header_cache = ([], []),
         has_velocities_cache = False\<rparr>"
    and c: "w1 = \<lparr>engine_state = [],
         trace =
           [Rkr_frame_to_c_frame (Some 1) (Some (sim_c_frame 1)), Free_c_frame (sim_c_frame 1),
            Rkr_frame_get_header_line_cpp (Some 1) True 0 (Some ''generated''),
            Rkr_free_string ''generated'',
            Rkr_frame_get_header_line_cpp (Some 1) True 1 None,
            Rkr_frame_get_header_line_cpp (Some 1) False 0 None,
            Rkr_frame_get_header_line_cpp (Some 1) False 1 None],
         heap_next = 0\<rparr>"
    by (simp_all add: ConFrame_ctor_def sim_c_frame_def sim_world_def junk_def header_calls_def)
  have A: "cache_data sim_engine (ConFrame_ctor junk (Some 1)) (sim_world []) =
       (Inr (),
        \<lparr>frame_handle = Some 1, is_cached = True,
         atoms_cache = map (\<lambda>i. Atom_of_CAtom (sim_atom i)) [0 ..< 2],
         cell_cache = (1, 1, 1), angles_cache = (90, 90, 90),
         prebox_header_cache = (''generated'', []), postbox_header_cache = ([], []),
         has_velocities_cache = False\<rparr>,
        \<lparr>engine_state = [],
         trace =
           [Rkr_frame_to_c_frame (Some 1) (Some (sim_c_frame 1)), Free_c_frame (sim_c_frame 1),
            Rkr_frame_get_header_line_cpp (Some 1) True 0 (Some ''generated''),
            Rkr_free_string ''generated'',
            Rkr_frame_get_header_line_cpp (Some 1) True 1 None,
            Rkr_frame_get_header_line_cpp (Some 1) False 0 None,
            Rkr_frame_get_header_line_cpp (Some 1) False 1 None],
         heap_next = 0\<rparr>)"
    using ev a b c by simp
  have s: "fst (rkr_frame_to_c_frame no_header_engine (frame_handle (ConFrame_ctor junk (Some 1)))
        (engine_state (sim_world []))) \<noteq> None"
    unfolding h st sim_snapshot by simp
  obtain r' f2 w2 where
    ev2: "cache_data no_header_engine (ConFrame_ctor junk (Some 1)) (sim_world []) = (r', f2, w2)"
    by (rule prod_cases3)
  have q': "rkr_frame_to_c_frame no_header_engine (Some 1) [] = (Some (sim_c_frame 1), [])"
    and g0: "header_step no_header_engine (Some 1) True 0
               (free_c_frame no_header_engine (sim_c_frame 1) []) = (None, [])"
    and g1: "header_step no_header_engine (Some 1) True 1 [] = (None, [])"
    and g2: "header_step no_header_engine (Some 1) False 0 [] = (None, [])"
    and g3: "header_step no_header_engine (Some 1) False 1 [] = (None, [])"
    by (simp_all only: sim_snapshot sim_header_step)
  note t2 = header_absence_degrades[OF n ev2, unfolded h st, THEN conjunct2, THEN conjunct1,
      rule_format, OF conjI[OF q' conjI[OF g0 conjI[OF g1 conjI[OF g2 g3]]]]]
  from t2 have w2: "new_calls (sim_world []) w2 =
       [Rkr_frame_to_c_frame (Some 1) (Some (sim_c_frame 1)), Free_c_frame (sim_c_frame 1),
        Rkr_frame_get_header_line_cpp (Some 1) True 0 None,
        Rkr_frame_get_header_line_cpp (Some 1) True 1 None,
        Rkr_frame_get_header_line_cpp (Some 1) False 0 None,
        Rkr_frame_get_header_line_cpp (Some 1) False 1 None]"
    and cc: "cell_cache f2 = (1, 1, 1)"
    by (simp_all add: new_calls_def header_calls_def sim_c_frame_def)
  then have m:
    "Rkr_frame_get_header_line_cpp (Some 1) True 0 None \<in> set (new_calls (sim_world []) w2)"
    "Rkr_frame_get_header_line_cpp (Some 1) True 1 None \<in> set (new_calls (sim_world []) w2)"
    "Rkr_frame_get_header_line_cpp (Some 1) False 0 None \<in> set (new_calls (sim_world []) w2)"
    "Rkr_frame_get_header_line_cpp (Some 1) False 1 None \<in> set (new_calls (sim_world []) w2)"
    by simp_all
  from header_absence_degrades[OF n ev2, unfolded h] m
  have "r' = Inr () \<and> is_cached f2
     \<and> prebox_header_cache f2 = ([], []) \<and> postbox_header_cache f2 = ([], [])"
    by (simp add: prod_eq_iff)
  with ev2 m cc have B: "\<exists>f1 w1. cache_data no_header_engine (ConFrame_ctor junk (Some 1)) (sim_world [])
                = (Inr (), f1, w1)
        \<and> Rkr_frame_get_header_line_cpp (Some 1) True 0 None \<in> set (new_calls (sim_world []) w1)
        \<and> Rkr_frame_get_header_line_cpp (Some 1) True 1 None \<in> set (new_calls (sim_world []) w1)
        \<and> Rkr_frame_get_header_line_cpp (Some 1) False 0 None \<in> set (new_calls (sim_world []) w1)
        \<and> Rkr_frame_get_header_line_cpp (Some 1) False 1 None \<in> set (new_calls (sim_world []) w1)
        \<and> is_cached f1
        \<and> cell_cache f1 = (1, 1, 1)
        \<and> prebox_header_cache f1 = ([], []) \<and> postbox_header_cache f1 = ([], [])"
    by blast
  from n q h0 h1 h2 h3 A s B show ?thesis unfolding h st by blast
qed

text \<open>
  Claim C5. If the engine answers the snapshot request of a ConFrame that is not yet
  materialized with null, the accessor that triggered it throws
  \<^verbatim>\<open>std::runtime_error\<close>, whichever of the six it is; it returns no data.
\<close>

theorem null_snapshot_throws:
  assumes "\<not> is_cached f"
    and "fst (rkr_frame_to_c_frame e (frame_handle f) (engine_state w)) = None"
  shows "fst (cell e f w) = Inl (Runtime_error ''Failed to extract CFrame from handle for caching.'')
     \<and> fst (angles e f w) = Inl (Runtime_error ''Failed to extract CFrame from handle for caching.'')
     \<and> fst (atoms e f w) = Inl (Runtime_error ''Failed to extract CFrame from handle for caching.'')
     \<and> fst (prebox_header e f w) = Inl (Runtime_error ''Failed to extract CFrame from handle for caching.'')
     \<and> fst (postbox_header e f w) = Inl (Runtime_error ''Failed to extract CFrame from handle for caching.'')
     \<and> fst (has_velocities e f w) = Inl (Runtime_error ''Failed to extract CFrame from handle for caching.'')"
proof -
  from cache_data_null_snapshot[OF assms] obtain w1 where
    "cache_data e f w = (Inl (Runtime_error ''Failed to extract CFrame from handle for caching.''), f, w1)"
    by blast
  then show ?thesis
    by (simp add: cell_def angles_def atoms_def prebox_header_def postbox_header_def has_velocities_def)
qed

text \<open>The theorem at a frame with a null handle, which \<open>sim_engine\<close> has no snapshot for.\<close>

theorem null_snapshot_throws_witness:
  "\<not> is_cached (ConFrame_ctor junk None)
   \<and> fst (rkr_frame_to_c_frame sim_engine (frame_handle (ConFrame_ctor junk None))
        (engine_state (sim_world []))) = None
   \<and> fst (atoms sim_engine (ConFrame_ctor junk None) (sim_world []))
       = Inl (Runtime_error ''Failed to extract CFrame from handle for caching.'')"
proof -
  have n: "\<not> is_cached (ConFrame_ctor junk None)" by (simp add: ConFrame_ctor_def)
  have s: "fst (rkr_frame_to_c_frame sim_engine (frame_handle (ConFrame_ctor junk None))
        (engine_state (sim_world []))) = None"
    by (simp add: sim_engine_def ConFrame_ctor_def)
  from null_snapshot_throws[OF n s] n s show ?thesis by simp
qed

section \<open>Iteration\<close>

lemma release_current_trace:
  "trace (release_current e it w) = trace w @ release_calls it"
  by (auto simp: release_current_def release_calls_def ConFrame_dtor_def ffi_void_trace
           split: option.splits)

lemma requests_release_calls: "requests (release_calls it) = []"
  by (auto simp: requests_def release_calls_def split: option.splits)

lemma release_current_result:
  "release_current e it w =
     w\<lparr>engine_state := release_state e it (engine_state w),
       trace := trace w @ release_calls it\<rparr>"
  by (simp add: release_current_def release_state_def release_calls_def ConFrame_dtor_def
        ffi_void_def split: option.splits)

lemma fetch_next_frame_run:
  "fetch_next_frame e u it w =
     (it\<lparr>current_frame :=
          map_option (\<lambda>h. (heap_next w, ConFrame_ctor u (Some h)))
            (fst (con_frame_iterator_next e (it_iterator_ptr it) (engine_state w)))\<rparr>,
      w\<lparr>engine_state :=
          release_state e it (snd (con_frame_iterator_next e (it_iterator_ptr it) (engine_state w))),
        trace := trace w
          @ Con_frame_iterator_next (it_iterator_ptr it)
              (fst (con_frame_iterator_next e (it_iterator_ptr it) (engine_state w)))
          # release_calls it,
        heap_next :=
          (case fst (con_frame_iterator_next e (it_iterator_ptr it) (engine_state w)) of
             None \<Rightarrow> heap_next w
           | Some h \<Rightarrow> Suc (heap_next w))\<rparr>)"
  by (simp add: fetch_next_frame_def ffi_unfold release_current_result Let_def
           split: option.splits)

lemma fetch_next_frame_result:
  assumes "fetch_next_frame e u it w = (it', w')"
  shows "trace w' = trace w
           @ Con_frame_iterator_next (it_iterator_ptr it)
               (fst (con_frame_iterator_next e (it_iterator_ptr it) (engine_state w)))
           # release_calls it
     \<and> it_iterator_ptr it' = it_iterator_ptr it
     \<and> current_frame it' =
         map_option (\<lambda>h. (heap_next w, ConFrame_ctor u (Some h)))
           (fst (con_frame_iterator_next e (it_iterator_ptr it) (engine_state w)))"
proof -
  obtain a s where q: "con_frame_iterator_next e (it_iterator_ptr it) (engine_state w) = (a, s)"
    by fastforce
  show ?thesis
    using assms q
    by (cases a) (auto simp: fetch_next_frame_def ffi_def Let_def release_current_trace)
qed

lemma Iterator_ctor_null:
  "Iterator_ctor e u None w = (\<lparr>it_iterator_ptr = None, current_frame = None\<rparr>, w)"
  by (simp add: Iterator_ctor_def)

lemma Iterator_ctor_result:
  assumes "Iterator_ctor e u (Some p) w = (it, w')"
  shows "trace w' = trace w
           @ [Con_frame_iterator_next (Some p) (fst (con_frame_iterator_next e (Some p) (engine_state w)))]
     \<and> it_iterator_ptr it = Some p
     \<and> current_frame it =
         map_option (\<lambda>h. (heap_next w, ConFrame_ctor u (Some h)))
           (fst (con_frame_iterator_next e (Some p) (engine_state w)))"
proof -
  from assms have "fetch_next_frame e u \<lparr>it_iterator_ptr = Some p, current_frame = None\<rparr> w = (it, w')"
    by (simp add: Iterator_ctor_def)
  from fetch_next_frame_result[OF this] show ?thesis
    by (simp add: release_calls_def)
qed

lemma Iterator_ctor_engine:
  assumes "Iterator_ctor e u (Some p) w = (it, w')"
  shows "engine_state w' = snd (con_frame_iterator_next e (Some p) (engine_state w))"
  using assms
  by (auto simp: Iterator_ctor_def fetch_next_frame_def ffi_def release_current_def Let_def
           split: prod.splits option.splits)

lemma ConFrameIterator_ctor_result:
  assumes "ConFrameIterator_ctor e path w = (r, w1)"
  shows "trace w1 = trace w
           @ [Read_con_file_iterator (c_str path)
                (fst (read_con_file_iterator e (c_str path) (engine_state w)))]
     \<and> r = (case fst (read_con_file_iterator e (c_str path) (engine_state w)) of
              None \<Rightarrow> Inl (Runtime_error (''Failed to open .con file for iteration: '' @ path))
            | Some p \<Rightarrow> Inr \<lparr>cfi_iterator_ptr = Some p\<rparr>)"
  using assms by (auto simp: ConFrameIterator_ctor_def ffi_unfold split: option.splits)

lemma ConFrameIterator_end_result:
  "ConFrameIterator_end e u c w = (\<lparr>it_iterator_ptr = None, current_frame = None\<rparr>, w)"
  by (simp add: ConFrameIterator_end_def Iterator_ctor_null)

lemma Iterator_neq_end:
  "Iterator_neq it \<lparr>it_iterator_ptr = None, current_frame = None\<rparr> \<longleftrightarrow> current_frame it \<noteq> None"
  by (simp add: Iterator_neq_def)

lemma Iterator_neq_none:
  "current_frame a = None \<Longrightarrow> (\<not> Iterator_neq a b) = (current_frame b = None)"
  by (cases "current_frame b") (simp_all add: Iterator_neq_def)

lemma Iterator_neq_at_end:
  "current_frame a = None \<or> current_frame b = None \<Longrightarrow>
     (\<not> Iterator_neq a b) = (current_frame a = None \<and> current_frame b = None)"
  by (cases "current_frame a"; cases "current_frame b") (simp_all add: Iterator_neq_def)

lemma begin_result:
  assumes "cfi_iterator_ptr c = Some p" and "ConFrameIterator_begin e u c w = (it, w')"
  shows "new_calls w w' = [Con_frame_iterator_next (Some p)
                             (fst (con_frame_iterator_next e (Some p) (engine_state w)))]
     \<and> held_handle it = fst (con_frame_iterator_next e (Some p) (engine_state w))
     \<and> (current_frame it = None \<longleftrightarrow> fst (con_frame_iterator_next e (Some p) (engine_state w)) = None)
     \<and> engine_state w' = snd (con_frame_iterator_next e (Some p) (engine_state w))"
proof -
  from assms have i: "Iterator_ctor e u (Some p) w = (it, w')"
    by (simp add: ConFrameIterator_begin_def)
  from Iterator_ctor_result[OF i] Iterator_ctor_engine[OF i] show ?thesis
    by (cases "fst (con_frame_iterator_next e (Some p) (engine_state w))")
       (simp_all add: new_calls_append held_handle_def ConFrame_ctor_def)
qed

text \<open>
  Claim C2, as amended. Constructing a ConFrameIterator from a path makes one engine
  call, the one that opens the file, and throws when the engine answers it with null; it
  fetches no frame. The first frame is fetched by \<^verbatim>\<open>begin()\<close>: on a constructed
  ConFrameIterator every \<^verbatim>\<open>begin()\<close> makes exactly one request for the next frame, and
  the position it returns differs from \<^verbatim>\<open>end()\<close> exactly when the engine answered with a
  frame. So an empty sequence shows as \<^verbatim>\<open>begin() == end()\<close>, with no advance by the
  caller.
\<close>

theorem construction_only_opens:
  assumes "ConFrameIterator_ctor e path w = (r, w1)"
  shows "new_calls w w1 = [Read_con_file_iterator (c_str path)
                             (fst (read_con_file_iterator e (c_str path) (engine_state w)))]
     \<and> (fst (read_con_file_iterator e (c_str path) (engine_state w)) = None \<longrightarrow>
          r = Inl (Runtime_error (''Failed to open .con file for iteration: '' @ path)))
     \<and> (\<forall>c. r = Inr c \<longrightarrow>
          cfi_iterator_ptr c \<noteq> None
          \<and> cfi_iterator_ptr c = fst (read_con_file_iterator e (c_str path) (engine_state w))
          \<and> (\<forall>u w2 it w3. ConFrameIterator_begin e u c w2 = (it, w3) \<longrightarrow>
                new_calls w2 w3 = [Con_frame_iterator_next (cfi_iterator_ptr c)
                    (fst (con_frame_iterator_next e (cfi_iterator_ptr c) (engine_state w2)))]
                \<and> (Iterator_neq it (fst (ConFrameIterator_end e u c w3))
                     \<longleftrightarrow> fst (con_frame_iterator_next e (cfi_iterator_ptr c) (engine_state w2)) \<noteq> None)))"
proof -
  note k = ConFrameIterator_ctor_result[OF assms]
  have a: "new_calls w w1 = [Read_con_file_iterator (c_str path)
                             (fst (read_con_file_iterator e (c_str path) (engine_state w)))]"
    using k by (simp add: new_calls_append)
  have b: "fst (read_con_file_iterator e (c_str path) (engine_state w)) = None \<longrightarrow>
          r = Inl (Runtime_error (''Failed to open .con file for iteration: '' @ path))"
    using k by simp
  have c: "\<forall>c. r = Inr c \<longrightarrow>
          cfi_iterator_ptr c \<noteq> None
          \<and> cfi_iterator_ptr c = fst (read_con_file_iterator e (c_str path) (engine_state w))
          \<and> (\<forall>u w2 it w3. ConFrameIterator_begin e u c w2 = (it, w3) \<longrightarrow>
                new_calls w2 w3 = [Con_frame_iterator_next (cfi_iterator_ptr c)
                    (fst (con_frame_iterator_next e (cfi_iterator_ptr c) (engine_state w2)))]
                \<and> (Iterator_neq it (fst (ConFrameIterator_end e u c w3))
                     \<longleftrightarrow> fst (con_frame_iterator_next e (cfi_iterator_ptr c) (engine_state w2)) \<noteq> None))"
  proof (intro allI impI)
    fix c assume rc: "r = Inr c"
    with k obtain p where p: "cfi_iterator_ptr c = Some p"
      and q: "fst (read_con_file_iterator e (c_str path) (engine_state w)) = Some p"
      by (auto split: option.splits)
    have "\<forall>u w2 it w3. ConFrameIterator_begin e u c w2 = (it, w3) \<longrightarrow>
                new_calls w2 w3 = [Con_frame_iterator_next (cfi_iterator_ptr c)
                    (fst (con_frame_iterator_next e (cfi_iterator_ptr c) (engine_state w2)))]
                \<and> (Iterator_neq it (fst (ConFrameIterator_end e u c w3))
                     \<longleftrightarrow> fst (con_frame_iterator_next e (cfi_iterator_ptr c) (engine_state w2)) \<noteq> None)"
    proof (intro allI impI)
      fix u w2 it w3 assume bg: "ConFrameIterator_begin e u c w2 = (it, w3)"
      from begin_result[OF p bg] show "new_calls w2 w3 = [Con_frame_iterator_next (cfi_iterator_ptr c)
                    (fst (con_frame_iterator_next e (cfi_iterator_ptr c) (engine_state w2)))]
                \<and> (Iterator_neq it (fst (ConFrameIterator_end e u c w3))
                     \<longleftrightarrow> fst (con_frame_iterator_next e (cfi_iterator_ptr c) (engine_state w2)) \<noteq> None)"
        by (simp add: p ConFrameIterator_end_result Iterator_neq_end)
    qed
    with p q show "cfi_iterator_ptr c \<noteq> None
          \<and> cfi_iterator_ptr c = fst (read_con_file_iterator e (c_str path) (engine_state w))
          \<and> (\<forall>u w2 it w3. ConFrameIterator_begin e u c w2 = (it, w3) \<longrightarrow>
                new_calls w2 w3 = [Con_frame_iterator_next (cfi_iterator_ptr c)
                    (fst (con_frame_iterator_next e (cfi_iterator_ptr c) (engine_state w2)))]
                \<and> (Iterator_neq it (fst (ConFrameIterator_end e u c w3))
                     \<longleftrightarrow> fst (con_frame_iterator_next e (cfi_iterator_ptr c) (engine_state w2)) \<noteq> None))"
      by simp
  qed
  from a b c show ?thesis by blast
qed

text \<open>The theorem at an empty file of \<open>sim_engine\<close>.\<close>

theorem construction_only_opens_witness:
  "\<exists>c w1 it w3.
     ConFrameIterator_ctor sim_engine ''a.con'' (sim_world []) = (Inr c, w1)
     \<and> cfi_iterator_ptr c = Some 1
     \<and> new_calls (sim_world []) w1 = [Read_con_file_iterator ''a.con'' (Some 1)]
     \<and> ConFrameIterator_begin sim_engine junk c w1 = (it, w3)
     \<and> new_calls w1 w3 = [Con_frame_iterator_next (Some 1) None]
     \<and> \<not> Iterator_neq it (fst (ConFrameIterator_end sim_engine junk c w3))"
proof -
  obtain r w1 where ev: "ConFrameIterator_ctor sim_engine ''a.con'' (sim_world []) = (r, w1)"
    by fastforce
  have o: "fst (read_con_file_iterator sim_engine (c_str ''a.con'') (engine_state (sim_world [])))
             = Some 1"
    and cs: "c_str ''a.con'' = ''a.con''"
    by (simp_all add: sim_engine_def c_str_def)
  have s1: "engine_state w1 = []"
    using ev by (auto simp: ConFrameIterator_ctor_def ffi_unfold sim_engine_def sim_world_def
                      split: option.splits)
  from ConFrameIterator_ctor_result[OF ev] o obtain c where rc: "r = Inr c" by simp
  obtain it w3 where bg: "ConFrameIterator_begin sim_engine junk c w1 = (it, w3)" by fastforce
  have n: "fst (con_frame_iterator_next sim_engine (Some 1) []) = None"
    by (simp add: sim_engine_def)
  from construction_only_opens[OF ev] rc o cs have
    a: "new_calls (sim_world []) w1 = [Read_con_file_iterator ''a.con'' (Some 1)]"
    and p: "cfi_iterator_ptr c = Some 1"
    and b: "\<forall>u w2 it w3. ConFrameIterator_begin sim_engine u c w2 = (it, w3) \<longrightarrow>
                new_calls w2 w3 = [Con_frame_iterator_next (cfi_iterator_ptr c)
                    (fst (con_frame_iterator_next sim_engine (cfi_iterator_ptr c) (engine_state w2)))]
                \<and> (Iterator_neq it (fst (ConFrameIterator_end sim_engine u c w3))
                     \<longleftrightarrow> fst (con_frame_iterator_next sim_engine (cfi_iterator_ptr c) (engine_state w2)) \<noteq> None)"
    by simp_all
  from b bg have "new_calls w1 w3 = [Con_frame_iterator_next (cfi_iterator_ptr c)
                    (fst (con_frame_iterator_next sim_engine (cfi_iterator_ptr c) (engine_state w1)))]
                \<and> (Iterator_neq it (fst (ConFrameIterator_end sim_engine junk c w3))
                     \<longleftrightarrow> fst (con_frame_iterator_next sim_engine (cfi_iterator_ptr c) (engine_state w1)) \<noteq> None)"
    by blast
  with p s1 n have "new_calls w1 w3 = [Con_frame_iterator_next (Some 1) None]
     \<and> \<not> Iterator_neq it (fst (ConFrameIterator_end sim_engine junk c w3))"
    by simp
  with ev rc p a bg show ?thesis by blast
qed

text \<open>
  Claim C2 as it is written fails: after the construction the trace holds the call that
  opens the file and no request for a frame, and both frames are still unread.
\<close>

theorem construction_only_opens_counterexample:
  "trace (snd (ConFrameIterator_ctor sim_engine ''a.con'' (sim_world [4, 5])))
     = [Read_con_file_iterator ''a.con'' (Some 1)]
   \<and> engine_state (snd (ConFrameIterator_ctor sim_engine ''a.con'' (sim_world [4, 5]))) = [4, 5]"
  by (simp add: ConFrameIterator_ctor_def ffi_def sim_engine_def sim_world_def c_str_def)

text \<open>
  Claim C6. Every advance of an iterator position (\<^verbatim>\<open>operator++\<close>) makes exactly one
  request for the next frame: the trace grows by that request followed by the release
  of the frame held before, if there was one, the engine is left in the state the request
  and that release lead to, and the position holds the engine's answer, at a fresh address
  when it is a frame. When the engine answers with null the position holds no current
  frame and compares equal to every end position, at any later time and without any
  engine call; when it answers with a frame the position holds that frame and differs
  from the end position. Where one of two positions holds no frame, they compare equal
  exactly when both hold none.
\<close>

theorem advance_fetches_one:
  assumes "Iterator_inc e u it w = (it', w')"
  shows "trace w' = trace w @ new_calls w w'
     \<and> requests (new_calls w w') =
         [Con_frame_iterator_next (it_iterator_ptr it)
            (fst (con_frame_iterator_next e (it_iterator_ptr it) (engine_state w)))]
     \<and> new_calls w w' =
         Con_frame_iterator_next (it_iterator_ptr it)
            (fst (con_frame_iterator_next e (it_iterator_ptr it) (engine_state w)))
         # release_calls it
     \<and> engine_state w' =
         release_state e it
           (snd (con_frame_iterator_next e (it_iterator_ptr it) (engine_state w)))
     \<and> w' = w\<lparr>engine_state :=
                  release_state e it
                    (snd (con_frame_iterator_next e (it_iterator_ptr it) (engine_state w))),
                trace := trace w
                  @ Con_frame_iterator_next (it_iterator_ptr it)
                      (fst (con_frame_iterator_next e (it_iterator_ptr it) (engine_state w)))
                  # release_calls it,
                heap_next :=
                  (case fst (con_frame_iterator_next e (it_iterator_ptr it) (engine_state w)) of
                     None \<Rightarrow> heap_next w
                   | Some h \<Rightarrow> Suc (heap_next w))\<rparr>
     \<and> it' = it\<lparr>current_frame :=
                   map_option (\<lambda>h. (heap_next w, ConFrame_ctor u (Some h)))
                     (fst (con_frame_iterator_next e (it_iterator_ptr it) (engine_state w)))\<rparr>
     \<and> (fst (con_frame_iterator_next e (it_iterator_ptr it) (engine_state w)) = None \<longrightarrow>
          current_frame it' = None
          \<and> (\<forall>u2 c w2. \<not> Iterator_neq it' (fst (ConFrameIterator_end e u2 c w2))
                         \<and> snd (ConFrameIterator_end e u2 c w2) = w2))
     \<and> (\<forall>h. fst (con_frame_iterator_next e (it_iterator_ptr it) (engine_state w)) = Some h \<longrightarrow>
          held_handle it' = Some h
          \<and> (\<forall>u2 c w2. Iterator_neq it' (fst (ConFrameIterator_end e u2 c w2))))
     \<and> (\<forall>a b. current_frame a = None \<or> current_frame b = None \<longrightarrow>
          (\<not> Iterator_neq a b) = (current_frame a = None \<and> current_frame b = None))"
proof -
  from assms have f: "fetch_next_frame e u it w = (it', w')" by (simp add: Iterator_inc_def)
  note k = fetch_next_frame_result[OF f]
  from f have i: "it' = it\<lparr>current_frame :=
                   map_option (\<lambda>h. (heap_next w, ConFrame_ctor u (Some h)))
                     (fst (con_frame_iterator_next e (it_iterator_ptr it) (engine_state w)))\<rparr>"
    and ww: "w' = w\<lparr>engine_state :=
                  release_state e it
                    (snd (con_frame_iterator_next e (it_iterator_ptr it) (engine_state w))),
                trace := trace w
                  @ Con_frame_iterator_next (it_iterator_ptr it)
                      (fst (con_frame_iterator_next e (it_iterator_ptr it) (engine_state w)))
                  # release_calls it,
                heap_next :=
                  (case fst (con_frame_iterator_next e (it_iterator_ptr it) (engine_state w)) of
                     None \<Rightarrow> heap_next w
                   | Some h \<Rightarrow> Suc (heap_next w))\<rparr>"
    by (simp_all add: fetch_next_frame_run)
  from k have t: "trace w' = trace w
           @ (Con_frame_iterator_next (it_iterator_ptr it)
               (fst (con_frame_iterator_next e (it_iterator_ptr it) (engine_state w)))
           # release_calls it)" by simp
  note n = new_calls_append[OF t]
  have 1: "trace w' = trace w @ new_calls w w'" using t n by simp
  have 2: "requests (new_calls w w') =
         [Con_frame_iterator_next (it_iterator_ptr it)
            (fst (con_frame_iterator_next e (it_iterator_ptr it) (engine_state w)))]"
    unfolding n using requests_release_calls[of it] by (simp add: requests_def)
  have es: "engine_state w' =
         release_state e it
           (snd (con_frame_iterator_next e (it_iterator_ptr it) (engine_state w)))"
    by (subst ww) simp
  have 3: "fst (con_frame_iterator_next e (it_iterator_ptr it) (engine_state w)) = None \<longrightarrow>
          current_frame it' = None
          \<and> (\<forall>u2 c w2. \<not> Iterator_neq it' (fst (ConFrameIterator_end e u2 c w2))
                         \<and> snd (ConFrameIterator_end e u2 c w2) = w2)"
    using k by (simp add: Iterator_neq_none ConFrameIterator_end_result)
  have 4: "\<forall>h. fst (con_frame_iterator_next e (it_iterator_ptr it) (engine_state w)) = Some h \<longrightarrow>
          held_handle it' = Some h
          \<and> (\<forall>u2 c w2. Iterator_neq it' (fst (ConFrameIterator_end e u2 c w2)))"
    using k by (auto simp: Iterator_neq_def ConFrameIterator_end_result held_handle_def ConFrame_ctor_def)
  have 5: "\<forall>a b. current_frame a = None \<or> current_frame b = None \<longrightarrow>
          (\<not> Iterator_neq a b) = (current_frame a = None \<and> current_frame b = None)"
    using Iterator_neq_at_end by blast
  show ?thesis
    by (intro conjI) (fact 1 2 n es ww i 3 4 5)+
qed

text \<open>
  The theorem at a position that holds frame 4, advanced once at the end of the file and
  once with the frames 5 and 6 still to be read: frame 6 is left in the stream.
\<close>

theorem advance_fetches_one_witness:
  "(\<exists>it' w'. Iterator_inc sim_engine junk (holding 4) (sim_world_after []) = (it', w')
      \<and> fst (con_frame_iterator_next sim_engine (it_iterator_ptr (holding 4))
              (engine_state (sim_world_after []))) = None
      \<and> requests (new_calls (sim_world_after []) w') = [Con_frame_iterator_next (Some 1) None]
      \<and> new_calls (sim_world_after []) w' = [Con_frame_iterator_next (Some 1) None, Free_rkr_frame 4]
      \<and> engine_state w' = []
      \<and> current_frame it' = None
      \<and> \<not> Iterator_neq it' (fst (ConFrameIterator_end sim_engine junk \<lparr>cfi_iterator_ptr = Some 1\<rparr> w'))
      \<and> (current_frame it' = None \<or> current_frame (holding 4) = None)
      \<and> Iterator_neq it' (holding 4))
   \<and> (\<exists>it' w'. Iterator_inc sim_engine junk (holding 4) (sim_world_after [5, 6]) = (it', w')
      \<and> fst (con_frame_iterator_next sim_engine (it_iterator_ptr (holding 4))
              (engine_state (sim_world_after [5, 6]))) = Some 5
      \<and> requests (new_calls (sim_world_after [5, 6]) w')
           = [Con_frame_iterator_next (Some 1) (Some 5)]
      \<and> new_calls (sim_world_after [5, 6]) w'
           = [Con_frame_iterator_next (Some 1) (Some 5), Free_rkr_frame 4]
      \<and> engine_state w' = [6]
      \<and> heap_next w' = 2
      \<and> current_frame it' = Some (1, ConFrame_ctor junk (Some 5))
      \<and> held_handle it' = Some 5
      \<and> Iterator_neq it' (fst (ConFrameIterator_end sim_engine junk \<lparr>cfi_iterator_ptr = Some 1\<rparr> w')))"
proof -
  obtain i1 w1 where e1: "Iterator_inc sim_engine junk (holding 4) (sim_world_after []) = (i1, w1)"
    by fastforce
  obtain i2 w2 where e2: "Iterator_inc sim_engine junk (holding 4) (sim_world_after [5, 6]) = (i2, w2)"
    by fastforce
  have p: "it_iterator_ptr (holding 4) = Some 1"
    by (simp add: holding_def)
  have n1: "fst (con_frame_iterator_next sim_engine (Some 1) (engine_state (sim_world_after [])))
              = None"
    and n2: "fst (con_frame_iterator_next sim_engine (Some 1) (engine_state (sim_world_after [5, 6])))
              = Some 5"
    by (simp_all add: sim_engine_def sim_world_after_def)
  have m1: "snd (con_frame_iterator_next sim_engine (Some 1) (engine_state (sim_world_after [])))
              = []"
    and m2: "snd (con_frame_iterator_next sim_engine (Some 1) (engine_state (sim_world_after [5, 6])))
              = [6]"
    by (simp_all add: sim_engine_def sim_world_after_def)
  have rc: "release_calls (holding 4) = [Free_rkr_frame 4]"
    and rs: "release_state sim_engine (holding 4) [] = []"
            "release_state sim_engine (holding 4) [6] = [6]"
    by (simp_all add: release_calls_def release_state_def holding_def ConFrame_ctor_def
          sim_engine_def)
  note t1 = advance_fetches_one[OF e1, unfolded p n1 m1 rc rs]
  note t2 = advance_fetches_one[OF e2, unfolded p n2 m2 rc rs]
  from t1 have
    a: "requests (new_calls (sim_world_after []) w1) = [Con_frame_iterator_next (Some 1) None]
      \<and> new_calls (sim_world_after []) w1 = [Con_frame_iterator_next (Some 1) None, Free_rkr_frame 4]
      \<and> engine_state w1 = []
      \<and> current_frame i1 = None
      \<and> \<not> Iterator_neq i1 (fst (ConFrameIterator_end sim_engine junk \<lparr>cfi_iterator_ptr = Some 1\<rparr> w1))"
    by blast
  note g = advance_fetches_one[OF e1, THEN conjunct2, THEN conjunct2, THEN conjunct2,
      THEN conjunct2, THEN conjunct2, THEN conjunct2, THEN conjunct2, THEN conjunct2,
      rule_format, of i1 "holding 4"]
  have h: "current_frame (holding 4) \<noteq> None" by (simp add: holding_def)
  from a have cn: "current_frame i1 = None" by blast
  with g h have "Iterator_neq i1 (holding 4)" by simp
  with cn have d: "(current_frame i1 = None \<or> current_frame (holding 4) = None)
      \<and> Iterator_neq i1 (holding 4)"
    by simp
  from t2 have
    b: "requests (new_calls (sim_world_after [5, 6]) w2)
           = [Con_frame_iterator_next (Some 1) (Some 5)]
      \<and> new_calls (sim_world_after [5, 6]) w2
           = [Con_frame_iterator_next (Some 1) (Some 5), Free_rkr_frame 4]
      \<and> engine_state w2 = [6]
      \<and> held_handle i2 = Some 5
      \<and> Iterator_neq i2 (fst (ConFrameIterator_end sim_engine junk \<lparr>cfi_iterator_ptr = Some 1\<rparr> w2))"
    by blast
  note w2 = t2[THEN conjunct2, THEN conjunct2, THEN conjunct2, THEN conjunct2, THEN conjunct1]
  note i2 = t2[THEN conjunct2, THEN conjunct2, THEN conjunct2, THEN conjunct2, THEN conjunct2,
      THEN conjunct1]
  have hn: "heap_next w2 = 2" by (subst w2) (simp add: sim_world_after_def)
  have cf: "current_frame i2 = Some (1, ConFrame_ctor junk (Some 5))"
    by (subst i2) (simp add: sim_world_after_def)
  from e1 n1 a d e2 n2 b hn cf show ?thesis unfolding p by blast
qed

text \<open>
  Claim C8. \<^verbatim>\<open>begin()\<close> is not idempotent. On a ConFrameIterator constructed from a
  path, every call to \<^verbatim>\<open>begin()\<close>, whenever it is made, makes one request for the next
  frame on the shared session pointer: the position returned by the first call holds the
  engine's answer to the first request, the position returned by the second call holds
  its answer to the next request, made in the engine state the first one left.
\<close>

theorem begin_fetches_each_time:
  assumes "ConFrameIterator_ctor e path w0 = (Inr c, wc)"
    and "ConFrameIterator_begin e u c w = (it1, w1)"
    and "ConFrameIterator_begin e u c w1 = (it2, w2)"
  shows "new_calls w w1 =
           [Con_frame_iterator_next (cfi_iterator_ptr c)
              (fst (con_frame_iterator_next e (cfi_iterator_ptr c) (engine_state w)))]
     \<and> new_calls w1 w2 =
           [Con_frame_iterator_next (cfi_iterator_ptr c)
              (fst (con_frame_iterator_next e (cfi_iterator_ptr c)
                 (snd (con_frame_iterator_next e (cfi_iterator_ptr c) (engine_state w)))))]
     \<and> held_handle it1 = fst (con_frame_iterator_next e (cfi_iterator_ptr c) (engine_state w))
     \<and> held_handle it2 = fst (con_frame_iterator_next e (cfi_iterator_ptr c)
                 (snd (con_frame_iterator_next e (cfi_iterator_ptr c) (engine_state w))))"
proof -
  from ConFrameIterator_ctor_result[OF assms(1)] obtain p where p: "cfi_iterator_ptr c = Some p"
    by (auto split: option.splits)
  from begin_result[OF p assms(2)] begin_result[OF p assms(3)] show ?thesis
    by (simp add: p)
qed

text \<open>
  The theorem at a file with the frames 4 and 5: the second \<^verbatim>\<open>begin()\<close> holds frame 5.
\<close>

theorem begin_fetches_each_time_witness:
  "\<exists>c w it1 w1 it2 w2.
     ConFrameIterator_ctor sim_engine ''a.con'' (sim_world [4, 5]) = (Inr c, w)
     \<and> ConFrameIterator_begin sim_engine junk c w = (it1, w1)
     \<and> ConFrameIterator_begin sim_engine junk c w1 = (it2, w2)
     \<and> new_calls w w1 = [Con_frame_iterator_next (Some 1) (Some 4)]
     \<and> new_calls w1 w2 = [Con_frame_iterator_next (Some 1) (Some 5)]
     \<and> held_handle it1 = Some 4
     \<and> held_handle it2 = Some 5"
proof -
  obtain r w where ev: "ConFrameIterator_ctor sim_engine ''a.con'' (sim_world [4, 5]) = (r, w)"
    by fastforce
  then have r: "r = Inr \<lparr>cfi_iterator_ptr = Some 1\<rparr>" and s: "engine_state w = [4, 5]"
    by (auto simp: ConFrameIterator_ctor_def ffi_unfold sim_engine_def sim_world_def c_str_def
             split: option.splits)
  obtain it1 w1 where b1: "ConFrameIterator_begin sim_engine junk \<lparr>cfi_iterator_ptr = Some 1\<rparr> w = (it1, w1)"
    by fastforce
  obtain it2 w2 where b2: "ConFrameIterator_begin sim_engine junk \<lparr>cfi_iterator_ptr = Some 1\<rparr> w1 = (it2, w2)"
    by fastforce
  have n: "con_frame_iterator_next sim_engine (Some 1) [4, 5] = (Some 4, [5])"
    "con_frame_iterator_next sim_engine (Some 1) [5] = (Some 5, [])"
    by (simp_all add: sim_engine_def)
  from begin_fetches_each_time[OF ev[unfolded r] b1 b2] s n have
    "new_calls w w1 = [Con_frame_iterator_next (Some 1) (Some 4)]
     \<and> new_calls w1 w2 = [Con_frame_iterator_next (Some 1) (Some 5)]
     \<and> held_handle it1 = Some 4
     \<and> held_handle it2 = Some 5"
    by simp
  with ev r b1 b2 show ?thesis by blast
qed

section \<open>Writing\<close>

lemma extend_result:
  "ConFrameWriter_extend e wr frames w =
     (if frames = [] then (Inr (), w)
      else
        (if fst (rkr_writer_extend e (writer_handle wr) (map get_handle frames) (length frames)
                   (engine_state w)) \<noteq> 0
         then Inl (Runtime_error ''Failed to write multiple frames.'') else Inr (),
         w\<lparr>engine_state := snd (rkr_writer_extend e (writer_handle wr) (map get_handle frames)
                                  (length frames) (engine_state w)),
           trace := trace w @
             [Rkr_writer_extend (writer_handle wr) (map get_handle frames) (length frames)
                (fst (rkr_writer_extend e (writer_handle wr) (map get_handle frames)
                        (length frames) (engine_state w)))]\<rparr>))"
  by (simp add: ConFrameWriter_extend_def ffi_unfold Let_def)

lemma ConFrameWriter_ctor_result:
  "ConFrameWriter_ctor e path precision w =
     (if precision = 6
      then (case fst (create_writer_from_path_c e (c_str path) (engine_state w)) of
              None \<Rightarrow> Inl (Runtime_error (''Failed to create writer for file: '' @ path))
            | Some p \<Rightarrow> Inr \<lparr>writer_handle = Some p\<rparr>,
            w\<lparr>engine_state := snd (create_writer_from_path_c e (c_str path) (engine_state w)),
              trace := trace w @
                [Create_writer_from_path_c (c_str path)
                   (fst (create_writer_from_path_c e (c_str path) (engine_state w)))]\<rparr>)
      else (case fst (create_writer_from_path_with_precision_c e (c_str path) precision
                        (engine_state w)) of
              None \<Rightarrow> Inl (Runtime_error (''Failed to create writer for file: '' @ path))
            | Some p \<Rightarrow> Inr \<lparr>writer_handle = Some p\<rparr>,
            w\<lparr>engine_state := snd (create_writer_from_path_with_precision_c e (c_str path)
                                     precision (engine_state w)),
              trace := trace w @
                [Create_writer_from_path_with_precision_c (c_str path) precision
                   (fst (create_writer_from_path_with_precision_c e (c_str path) precision
                           (engine_state w)))]\<rparr>))"
  by (simp add: ConFrameWriter_ctor_def ffi_unfold split: option.splits)

text \<open>
  Claim C7. \<^verbatim>\<open>extend\<close> with an empty sequence of frames returns normally and leaves the
  world as it was: no engine call, the engine's state (the output file with it) unchanged.
  With a non-empty sequence it makes exactly one engine call, the write of the frames'
  handles in the order of the sequence, leaves the engine in the state that write leads
  to, and throws exactly when the engine's result is not zero.
\<close>

theorem extend_batch:
  "ConFrameWriter_extend e wr [] w = (Inr (), w)
   \<and> (frames \<noteq> [] \<longrightarrow>
        trace (snd (ConFrameWriter_extend e wr frames w))
          = trace w @ new_calls w (snd (ConFrameWriter_extend e wr frames w))
        \<and> new_calls w (snd (ConFrameWriter_extend e wr frames w))
          = [Rkr_writer_extend (writer_handle wr) (map get_handle frames) (length frames)
               (fst (rkr_writer_extend e (writer_handle wr) (map get_handle frames)
                       (length frames) (engine_state w)))]
        \<and> engine_state (snd (ConFrameWriter_extend e wr frames w))
          = snd (rkr_writer_extend e (writer_handle wr) (map get_handle frames)
                   (length frames) (engine_state w))
        \<and> snd (ConFrameWriter_extend e wr frames w)
          = w\<lparr>engine_state :=
                 snd (rkr_writer_extend e (writer_handle wr) (map get_handle frames)
                        (length frames) (engine_state w)),
               trace := trace w @
                 [Rkr_writer_extend (writer_handle wr) (map get_handle frames) (length frames)
                    (fst (rkr_writer_extend e (writer_handle wr) (map get_handle frames)
                            (length frames) (engine_state w)))]\<rparr>
        \<and> (fst (rkr_writer_extend e (writer_handle wr) (map get_handle frames)
                       (length frames) (engine_state w)) \<noteq> 0
             \<longrightarrow> fst (ConFrameWriter_extend e wr frames w)
                   = Inl (Runtime_error ''Failed to write multiple frames.''))
        \<and> (fst (rkr_writer_extend e (writer_handle wr) (map get_handle frames)
                       (length frames) (engine_state w)) = 0
             \<longrightarrow> fst (ConFrameWriter_extend e wr frames w) = Inr ()))"
  by (simp add: extend_result new_calls_def)

text \<open>
  The theorem at an output file that holds frame 7: the empty batch leaves it alone, a
  batch the engine writes leaves the frames 7, 1, 2 in it, a batch it refuses fails.
\<close>

theorem extend_batch_witness:
  "ConFrameWriter_extend file_engine \<lparr>writer_handle = Some 5\<rparr> [] (sim_world [7])
     = (Inr (), sim_world [7])
   \<and> [ConFrame_ctor junk (Some 1), ConFrame_ctor junk (Some 2)] \<noteq> []
   \<and> new_calls (sim_world [7])
        (snd (ConFrameWriter_extend file_engine \<lparr>writer_handle = Some 5\<rparr>
                [ConFrame_ctor junk (Some 1), ConFrame_ctor junk (Some 2)] (sim_world [7])))
       = [Rkr_writer_extend (Some 5) [Some 1, Some 2] 2 0]
   \<and> engine_state
        (snd (ConFrameWriter_extend file_engine \<lparr>writer_handle = Some 5\<rparr>
                [ConFrame_ctor junk (Some 1), ConFrame_ctor junk (Some 2)] (sim_world [7])))
       = [7, 1, 2]
   \<and> fst (ConFrameWriter_extend file_engine \<lparr>writer_handle = Some 5\<rparr>
                [ConFrame_ctor junk (Some 1), ConFrame_ctor junk (Some 2)] (sim_world [7])) = Inr ()
   \<and> [ConFrame_ctor junk (Some 1), ConFrame_ctor junk None] \<noteq> []
   \<and> new_calls (sim_world [7])
        (snd (ConFrameWriter_extend file_engine \<lparr>writer_handle = Some 5\<rparr>
                [ConFrame_ctor junk (Some 1), ConFrame_ctor junk None] (sim_world [7])))
       = [Rkr_writer_extend (Some 5) [Some 1, None] 2 (- 1)]
   \<and> engine_state
        (snd (ConFrameWriter_extend file_engine \<lparr>writer_handle = Some 5\<rparr>
                [ConFrame_ctor junk (Some 1), ConFrame_ctor junk None] (sim_world [7])))
       = [7]
   \<and> fst (ConFrameWriter_extend file_engine \<lparr>writer_handle = Some 5\<rparr>
                [ConFrame_ctor junk (Some 1), ConFrame_ctor junk None] (sim_world [7]))
       = Inl (Runtime_error ''Failed to write multiple frames.'')"
proof -
  have h: "map get_handle [ConFrame_ctor junk (Some 1), ConFrame_ctor junk (Some 2)] = [Some 1, Some 2]"
    "map get_handle [ConFrame_ctor junk (Some 1), ConFrame_ctor junk None] = [Some 1, None]"
    by (simp_all add: get_handle_def ConFrame_ctor_def)
  have c: "fst (rkr_writer_extend file_engine (Some 5) [Some 1, Some 2] 2 (engine_state (sim_world [7]))) = 0"
    "fst (rkr_writer_extend file_engine (Some 5) [Some 1, None] 2 (engine_state (sim_world [7]))) = - 1"
    "snd (rkr_writer_extend file_engine (Some 5) [Some 1, Some 2] 2 (engine_state (sim_world [7]))) = [7, 1, 2]"
    "snd (rkr_writer_extend file_engine (Some 5) [Some 1, None] 2 (engine_state (sim_world [7]))) = [7]"
    by (simp_all add: file_engine_def sim_engine_def sim_world_def)
  have l: "length [ConFrame_ctor junk (Some 1), ConFrame_ctor junk (Some 2)] = 2"
    "length [ConFrame_ctor junk (Some 1), ConFrame_ctor junk None] = 2"
    "writer_handle \<lparr>writer_handle = Some 5\<rparr> = Some 5"
    by simp_all
  have n: "[ConFrame_ctor junk (Some 1), ConFrame_ctor junk (Some 2)] \<noteq> []"
    "[ConFrame_ctor junk (Some 1), ConFrame_ctor junk None] \<noteq> []"
    by simp_all
  have z: "(- 1 :: int) \<noteq> 0" "(0::int) = 0" by simp_all
  note a = extend_batch[of file_engine "\<lparr>writer_handle = Some 5\<rparr>" "sim_world [7]"
      "[ConFrame_ctor junk (Some 1), ConFrame_ctor junk (Some 2)]", unfolded h l c]
  note b = extend_batch[of file_engine "\<lparr>writer_handle = Some 5\<rparr>" "sim_world [7]"
      "[ConFrame_ctor junk (Some 1), ConFrame_ctor junk None]", unfolded h l c]
  from a b n z show ?thesis by blast
qed

text \<open>
  Claim C9. A ConFrameWriter constructed with precision 6, which is also the default,
  calls the engine's constructor without a precision; with any other precision it calls
  the constructor that takes the precision. In both cases a null handle from the engine
  makes the construction throw, and any other handle is the one the writer owns.
\<close>

theorem writer_constructor_dispatch:
  "ConFrameWriter_ctor_default e path w = ConFrameWriter_ctor e path 6 w
   \<and> (precision = 6 \<longrightarrow>
        new_calls w (snd (ConFrameWriter_ctor e path precision w))
          = [Create_writer_from_path_c (c_str path)
               (fst (create_writer_from_path_c e (c_str path) (engine_state w)))]
        \<and> (fst (create_writer_from_path_c e (c_str path) (engine_state w)) = None \<longrightarrow>
             fst (ConFrameWriter_ctor e path precision w)
               = Inl (Runtime_error (''Failed to create writer for file: '' @ path)))
        \<and> (\<forall>p. fst (create_writer_from_path_c e (c_str path) (engine_state w)) = Some p \<longrightarrow>
             fst (ConFrameWriter_ctor e path precision w) = Inr \<lparr>writer_handle = Some p\<rparr>))
   \<and> (precision \<noteq> 6 \<longrightarrow>
        new_calls w (snd (ConFrameWriter_ctor e path precision w))
          = [Create_writer_from_path_with_precision_c (c_str path) precision
               (fst (create_writer_from_path_with_precision_c e (c_str path) precision
                       (engine_state w)))]
        \<and> (fst (create_writer_from_path_with_precision_c e (c_str path) precision
                       (engine_state w)) = None \<longrightarrow>
             fst (ConFrameWriter_ctor e path precision w)
               = Inl (Runtime_error (''Failed to create writer for file: '' @ path)))
        \<and> (\<forall>p. fst (create_writer_from_path_with_precision_c e (c_str path) precision
                       (engine_state w)) = Some p \<longrightarrow>
             fst (ConFrameWriter_ctor e path precision w) = Inr \<lparr>writer_handle = Some p\<rparr>))"
  by (simp add: ConFrameWriter_ctor_result ConFrameWriter_ctor_default_def new_calls_def)

text \<open>
  The theorem at the precisions 6 and 3, for a path \<open>sim_engine\<close> opens and for one it
  refuses.
\<close>

theorem writer_constructor_dispatch_witness:
  "(6 :: 8 word) = 6
   \<and> new_calls (sim_world []) (snd (ConFrameWriter_ctor sim_engine ''out.con'' 6 (sim_world [])))
       = [Create_writer_from_path_c ''out.con'' (Some 5)]
   \<and> fst (ConFrameWriter_ctor sim_engine ''out.con'' 6 (sim_world []))
       = Inr \<lparr>writer_handle = Some 5\<rparr>
   \<and> (3 :: 8 word) \<noteq> 6
   \<and> new_calls (sim_world []) (snd (ConFrameWriter_ctor sim_engine ''out.con'' 3 (sim_world [])))
       = [Create_writer_from_path_with_precision_c ''out.con'' 3 (Some 6)]
   \<and> fst (ConFrameWriter_ctor sim_engine ''out.con'' 3 (sim_world []))
       = Inr \<lparr>writer_handle = Some 6\<rparr>
   \<and> fst (create_writer_from_path_c sim_engine (c_str []) (engine_state (sim_world []))) = None
   \<and> fst (ConFrameWriter_ctor sim_engine [] 6 (sim_world []))
       = Inl (Runtime_error ''Failed to create writer for file: '')
   \<and> fst (create_writer_from_path_with_precision_c sim_engine (c_str []) 3
            (engine_state (sim_world []))) = None
   \<and> fst (ConFrameWriter_ctor sim_engine [] 3 (sim_world []))
       = Inl (Runtime_error ''Failed to create writer for file: '')"
proof -
  have k: "(6 :: 8 word) = 6" "(3 :: 8 word) \<noteq> 6" by simp_all
  have cs: "c_str ''out.con'' = ''out.con''" by (simp add: c_str_def)
  have o: "fst (create_writer_from_path_c sim_engine ''out.con'' (engine_state (sim_world [])))
             = Some 5"
    "fst (create_writer_from_path_with_precision_c sim_engine ''out.con'' 3
            (engine_state (sim_world []))) = Some 6"
    by (simp_all add: sim_engine_def)
  have z: "fst (create_writer_from_path_c sim_engine (c_str []) (engine_state (sim_world [])))
             = None"
    "fst (create_writer_from_path_with_precision_c sim_engine (c_str []) 3
            (engine_state (sim_world []))) = None"
    by (simp_all add: sim_engine_def c_str_def)
  have ap: "''Failed to create writer for file: '' @ [] = ''Failed to create writer for file: ''"
    by simp
  note a = writer_constructor_dispatch[of sim_engine "''out.con''" "sim_world []" 6, unfolded cs o]
  note b = writer_constructor_dispatch[of sim_engine "''out.con''" "sim_world []" 3, unfolded cs o]
  note c = writer_constructor_dispatch[of sim_engine "[]" "sim_world []" 6, unfolded z ap]
  note d = writer_constructor_dispatch[of sim_engine "[]" "sim_world []" 3, unfolded z ap]
  from a b c d k z show ?thesis by blast
qed

section \<open>Building\<close>

lemma nulled_builder: "builder_handle b = None \<Longrightarrow> b\<lparr>builder_handle := None\<rparr> = b"
  by (cases b) simp

lemma build_result:
  "build e u b w =
     (case fst (rkr_frame_builder_build e (builder_handle b) (engine_state w)) of
        None \<Rightarrow> Inl (Runtime_error ''Failed to build frame from builder.'')
      | Some p \<Rightarrow> Inr (ConFrame_ctor u (Some p)),
      b\<lparr>builder_handle := None\<rparr>,
      w\<lparr>engine_state := snd (rkr_frame_builder_build e (builder_handle b) (engine_state w)),
        trace := trace w @
          [Rkr_frame_builder_build (builder_handle b)
             (fst (rkr_frame_builder_build e (builder_handle b) (engine_state w)))]\<rparr>)"
  by (simp add: build_def ffi_unfold Let_def split: option.splits)

lemma add_atom_result:
  "add_atom e b symbol xyz fixed ident m w =
     (if fst (rkr_frame_add_atom e (builder_handle b) (c_str symbol) xyz fixed ident m
                (engine_state w)) \<noteq> 0
      then Inl (Runtime_error ''Failed to add atom to frame builder.'') else Inr (),
      w\<lparr>engine_state := snd (rkr_frame_add_atom e (builder_handle b) (c_str symbol) xyz fixed
                               ident m (engine_state w)),
        trace := trace w @
          [Rkr_frame_add_atom (builder_handle b) (c_str symbol) xyz fixed ident m
             (fst (rkr_frame_add_atom e (builder_handle b) (c_str symbol) xyz fixed ident m
                     (engine_state w)))]\<rparr>)"
  by (simp add: add_atom_def ffi_unfold)

lemma add_atom_with_velocity_result:
  "add_atom_with_velocity e b symbol xyz fixed ident m v w =
     (if fst (rkr_frame_add_atom_with_velocity e (builder_handle b) (c_str symbol) xyz fixed
                ident m v (engine_state w)) \<noteq> 0
      then Inl (Runtime_error ''Failed to add atom with velocity to frame builder.'')
      else Inr (),
      w\<lparr>engine_state := snd (rkr_frame_add_atom_with_velocity e (builder_handle b)
                               (c_str symbol) xyz fixed ident m v (engine_state w)),
        trace := trace w @
          [Rkr_frame_add_atom_with_velocity (builder_handle b) (c_str symbol) xyz fixed ident m v
             (fst (rkr_frame_add_atom_with_velocity e (builder_handle b) (c_str symbol) xyz
                     fixed ident m v (engine_state w)))]\<rparr>)"
  by (simp add: add_atom_with_velocity_def ffi_unfold)

text \<open>
  Claim C3. A successful \<^verbatim>\<open>build()\<close> hands the frame handle returned by the engine to a
  new ConFrame and leaves the builder with a null handle. On an engine that refuses a
  null builder handle, a second \<^verbatim>\<open>build()\<close> on that builder and every \<^verbatim>\<open>add_atom\<close> or
  \<^verbatim>\<open>add_atom_with_velocity\<close> after \<^verbatim>\<open>build()\<close> throws: each makes one engine call, with the
  null handle and never the handle consumed, and throws on the engine's answer, so none
  is a silent no-op and none reaches the state that was built from.
\<close>

theorem build_transfers_and_nulls:
  assumes "refuses_null_builder e" and "build e u b w = (Inr f, b1, w1)"
  shows "builder_handle b1 = None
     \<and> frame_handle f \<noteq> None
     \<and> frame_handle f = fst (rkr_frame_builder_build e (builder_handle b) (engine_state w))
     \<and> f = ConFrame_ctor u (frame_handle f)
     \<and> w1 = w\<lparr>engine_state :=
                 snd (rkr_frame_builder_build e (builder_handle b) (engine_state w)),
               trace := trace w @ [Rkr_frame_builder_build (builder_handle b) (frame_handle f)]\<rparr>
     \<and> (\<forall>u2 w2.
          build e u2 b1 w2 =
            (Inl (Runtime_error ''Failed to build frame from builder.''), b1,
             w2\<lparr>engine_state := snd (rkr_frame_builder_build e None (engine_state w2)),
                trace := trace w2 @ [Rkr_frame_builder_build None None]\<rparr>))
     \<and> (\<forall>symbol xyz fixed ident m w2.
          add_atom e b1 symbol xyz fixed ident m w2 =
            (Inl (Runtime_error ''Failed to add atom to frame builder.''),
             w2\<lparr>engine_state :=
                  snd (rkr_frame_add_atom e None (c_str symbol) xyz fixed ident m (engine_state w2)),
                trace := trace w2 @
                  [Rkr_frame_add_atom None (c_str symbol) xyz fixed ident m
                     (fst (rkr_frame_add_atom e None (c_str symbol) xyz fixed ident m
                             (engine_state w2)))]\<rparr>))
     \<and> (\<forall>symbol xyz fixed ident m v w2.
          add_atom_with_velocity e b1 symbol xyz fixed ident m v w2 =
            (Inl (Runtime_error ''Failed to add atom with velocity to frame builder.''),
             w2\<lparr>engine_state :=
                  snd (rkr_frame_add_atom_with_velocity e None (c_str symbol) xyz fixed ident m v
                         (engine_state w2)),
                trace := trace w2 @
                  [Rkr_frame_add_atom_with_velocity None (c_str symbol) xyz fixed ident m v
                     (fst (rkr_frame_add_atom_with_velocity e None (c_str symbol) xyz fixed
                             ident m v (engine_state w2)))]\<rparr>))"
proof -
  from assms(2) have b1: "builder_handle b1 = None"
    by (auto simp: build_result)
  from assms(2) obtain p where
    p: "fst (rkr_frame_builder_build e (builder_handle b) (engine_state w)) = Some p"
    and f: "f = ConFrame_ctor u (Some p)"
    by (auto simp: build_result split: option.splits)
  from f have fh: "frame_handle f = Some p" by (simp add: ConFrame_ctor_def)
  from assms(2) p have w1: "w1 = w\<lparr>engine_state :=
                 snd (rkr_frame_builder_build e (builder_handle b) (engine_state w)),
               trace := trace w @ [Rkr_frame_builder_build (builder_handle b) (Some p)]\<rparr>"
    by (auto simp: build_result)
  from assms(1) have
    r1: "\<And>s. fst (rkr_frame_builder_build e None s) = None"
    and r2: "\<And>symbol xyz fixed ident m s.
           fst (rkr_frame_add_atom e None symbol xyz fixed ident m s) \<noteq> 0"
    and r3: "\<And>symbol xyz fixed ident m v s.
           fst (rkr_frame_add_atom_with_velocity e None symbol xyz fixed ident m v s) \<noteq> 0"
    unfolding refuses_null_builder_def by blast+
  have 2: "\<forall>u2 w2.
          build e u2 b1 w2 =
            (Inl (Runtime_error ''Failed to build frame from builder.''), b1,
             w2\<lparr>engine_state := snd (rkr_frame_builder_build e None (engine_state w2)),
                trace := trace w2 @ [Rkr_frame_builder_build None None]\<rparr>)"
    by (simp add: build_result b1 r1 nulled_builder)
  have 3: "\<forall>symbol xyz fixed ident m w2.
          add_atom e b1 symbol xyz fixed ident m w2 =
            (Inl (Runtime_error ''Failed to add atom to frame builder.''),
             w2\<lparr>engine_state :=
                  snd (rkr_frame_add_atom e None (c_str symbol) xyz fixed ident m (engine_state w2)),
                trace := trace w2 @
                  [Rkr_frame_add_atom None (c_str symbol) xyz fixed ident m
                     (fst (rkr_frame_add_atom e None (c_str symbol) xyz fixed ident m
                             (engine_state w2)))]\<rparr>)"
    by (simp add: add_atom_result b1 r2)
  have 4: "\<forall>symbol xyz fixed ident m v w2.
          add_atom_with_velocity e b1 symbol xyz fixed ident m v w2 =
            (Inl (Runtime_error ''Failed to add atom with velocity to frame builder.''),
             w2\<lparr>engine_state :=
                  snd (rkr_frame_add_atom_with_velocity e None (c_str symbol) xyz fixed ident m v
                         (engine_state w2)),
                trace := trace w2 @
                  [Rkr_frame_add_atom_with_velocity None (c_str symbol) xyz fixed ident m v
                     (fst (rkr_frame_add_atom_with_velocity e None (c_str symbol) xyz fixed
                             ident m v (engine_state w2)))]\<rparr>)"
    by (simp add: add_atom_with_velocity_result b1 r3)
  from b1 p f fh w1 2 3 4 show ?thesis by simp
qed

text \<open>The theorem at \<open>sim_engine\<close>, which refuses a null builder handle.\<close>

theorem build_transfers_and_nulls_witness:
  "refuses_null_builder sim_engine
   \<and> (\<exists>f b1 w1.
        build sim_engine junk \<lparr>builder_handle = Some 3\<rparr> (sim_world []) = (Inr f, b1, w1)
        \<and> f = ConFrame_ctor junk (Some 8)
        \<and> builder_handle b1 = None
        \<and> new_calls (sim_world []) w1 = [Rkr_frame_builder_build (Some 3) (Some 8)]
        \<and> build sim_engine junk b1 w1 =
            (Inl (Runtime_error ''Failed to build frame from builder.''), b1,
             w1\<lparr>engine_state := [], trace := trace w1 @ [Rkr_frame_builder_build None None]\<rparr>)
        \<and> add_atom sim_engine b1 ''Cu'' (0, 0, 0) True 0 63 w1 =
            (Inl (Runtime_error ''Failed to add atom to frame builder.''),
             w1\<lparr>engine_state := [],
                trace := trace w1 @ [Rkr_frame_add_atom None ''Cu'' (0, 0, 0) True 0 63 (- 1)]\<rparr>)
        \<and> add_atom_with_velocity sim_engine b1 ''Cu'' (0, 0, 0) True 0 63 (1, 1, 1) w1 =
            (Inl (Runtime_error ''Failed to add atom with velocity to frame builder.''),
             w1\<lparr>engine_state := [],
                trace := trace w1 @
                  [Rkr_frame_add_atom_with_velocity None ''Cu'' (0, 0, 0) True 0 63 (1, 1, 1)
                     (- 1)]\<rparr>))"
proof -
  have c: "refuses_null_builder sim_engine"
    by (simp add: refuses_null_builder_def sim_engine_def)
  obtain r b1 w1 where
    ev: "build sim_engine junk \<lparr>builder_handle = Some 3\<rparr> (sim_world []) = (r, b1, w1)"
    by (rule prod_cases3)
  then have r: "r = Inr (ConFrame_ctor junk (Some 8))"
    by (auto simp: build_result sim_engine_def)
  have fh: "frame_handle (ConFrame_ctor junk (Some 8)) = Some 8" by (simp add: ConFrame_ctor_def)
  have bh: "builder_handle \<lparr>builder_handle = Some 3\<rparr> = Some 3" by simp
  have cs: "c_str ''Cu'' = ''Cu''" by (simp add: c_str_def)
  note t = build_transfers_and_nulls[OF c ev[unfolded r], unfolded fh bh]
  from t have b: "builder_handle b1 = None" by blast
  from t have w1: "w1 = sim_world []\<lparr>engine_state :=
                 snd (rkr_frame_builder_build sim_engine (Some 3) (engine_state (sim_world []))),
               trace := trace (sim_world []) @ [Rkr_frame_builder_build (Some 3) (Some 8)]\<rparr>"
    by blast
  have n: "new_calls (sim_world []) w1 = [Rkr_frame_builder_build (Some 3) (Some 8)]"
    and s1: "engine_state w1 = []"
    by (subst w1, simp add: new_calls_def sim_world_def sim_engine_def)+
  from t have 2: "build sim_engine junk b1 w1 =
            (Inl (Runtime_error ''Failed to build frame from builder.''), b1,
             w1\<lparr>engine_state := snd (rkr_frame_builder_build sim_engine None (engine_state w1)),
                trace := trace w1 @ [Rkr_frame_builder_build None None]\<rparr>)"
    by blast
  from t have 3: "add_atom sim_engine b1 ''Cu'' (0, 0, 0) True 0 63 w1 =
            (Inl (Runtime_error ''Failed to add atom to frame builder.''),
             w1\<lparr>engine_state :=
                  snd (rkr_frame_add_atom sim_engine None (c_str ''Cu'') (0, 0, 0) True 0 63
                         (engine_state w1)),
                trace := trace w1 @
                  [Rkr_frame_add_atom None (c_str ''Cu'') (0, 0, 0) True 0 63
                     (fst (rkr_frame_add_atom sim_engine None (c_str ''Cu'') (0, 0, 0) True 0 63
                             (engine_state w1)))]\<rparr>)"
    by blast
  from t have 4: "add_atom_with_velocity sim_engine b1 ''Cu'' (0, 0, 0) True 0 63 (1, 1, 1) w1 =
            (Inl (Runtime_error ''Failed to add atom with velocity to frame builder.''),
             w1\<lparr>engine_state :=
                  snd (rkr_frame_add_atom_with_velocity sim_engine None (c_str ''Cu'') (0, 0, 0)
                         True 0 63 (1, 1, 1) (engine_state w1)),
                trace := trace w1 @
                  [Rkr_frame_add_atom_with_velocity None (c_str ''Cu'') (0, 0, 0) True 0 63
                     (1, 1, 1)
                     (fst (rkr_frame_add_atom_with_velocity sim_engine None (c_str ''Cu'')
                             (0, 0, 0) True 0 63 (1, 1, 1) (engine_state w1)))]\<rparr>)"
    by blast
  have e: "snd (rkr_frame_builder_build sim_engine None (engine_state w1)) = []"
    "snd (rkr_frame_add_atom sim_engine None ''Cu'' (0, 0, 0) True 0 63 (engine_state w1)) = []"
    "fst (rkr_frame_add_atom sim_engine None ''Cu'' (0, 0, 0) True 0 63 (engine_state w1)) = - 1"
    "snd (rkr_frame_add_atom_with_velocity sim_engine None ''Cu'' (0, 0, 0) True 0 63 (1, 1, 1)
            (engine_state w1)) = []"
    "fst (rkr_frame_add_atom_with_velocity sim_engine None ''Cu'' (0, 0, 0) True 0 63 (1, 1, 1)
            (engine_state w1)) = - 1"
    by (simp_all add: s1 sim_engine_def)
  from c ev r b n 2[unfolded e] 3[unfolded cs e] 4[unfolded cs e] show ?thesis by blast
qed

text \<open>
  Claim C10. \<^verbatim>\<open>build()\<close> leaves the builder with a null handle whether it returns or
  throws: it makes one engine call, and the handle is cleared before the result is looked
  at. Destroying the builder afterwards makes no engine call, whereas destroying a
  builder that still owns a handle releases it.
\<close>

theorem build_always_invalidates:
  assumes "build e u b w = (r, b1, w1)"
  shows "builder_handle b1 = None
     \<and> (\<forall>w2. ConFrameBuilder_dtor e b1 w2 = w2)
     \<and> new_calls w w1
         = [Rkr_frame_builder_build (builder_handle b)
              (fst (rkr_frame_builder_build e (builder_handle b) (engine_state w)))]
     \<and> (fst (rkr_frame_builder_build e (builder_handle b) (engine_state w)) = None \<longrightarrow>
          r = Inl (Runtime_error ''Failed to build frame from builder.''))
     \<and> (\<forall>p. fst (rkr_frame_builder_build e (builder_handle b) (engine_state w)) = Some p \<longrightarrow>
          r = Inr (ConFrame_ctor u (Some p)))
     \<and> (\<forall>p w2. builder_handle b = Some p \<longrightarrow>
          new_calls w2 (ConFrameBuilder_dtor e b w2) = [Free_rkr_frame_builder p])"
  using assms
  by (auto simp: build_result ConFrameBuilder_dtor_def new_calls_def ffi_void_trace)

text \<open>The theorem at an engine that refuses the build.\<close>

theorem build_always_invalidates_witness:
  "\<exists>b1 w1.
     build failing_build_engine junk \<lparr>builder_handle = Some 3\<rparr> (sim_world [])
       = (Inl (Runtime_error ''Failed to build frame from builder.''), b1, w1)
     \<and> fst (rkr_frame_builder_build failing_build_engine
              (builder_handle \<lparr>builder_handle = Some 3\<rparr>) (engine_state (sim_world []))) = None
     \<and> builder_handle b1 = None
     \<and> ConFrameBuilder_dtor failing_build_engine b1 w1 = w1
     \<and> builder_handle \<lparr>builder_handle = Some 3\<rparr> = Some 3
     \<and> new_calls w1 (ConFrameBuilder_dtor failing_build_engine \<lparr>builder_handle = Some 3\<rparr> w1)
         = [Free_rkr_frame_builder 3]"
proof -
  obtain r b1 w1 where
    ev: "build failing_build_engine junk \<lparr>builder_handle = Some 3\<rparr> (sim_world []) = (r, b1, w1)"
    by (rule prod_cases3)
  have n: "fst (rkr_frame_builder_build failing_build_engine
              (builder_handle \<lparr>builder_handle = Some 3\<rparr>) (engine_state (sim_world []))) = None"
    by (simp add: failing_build_engine_def sim_engine_def)
  have h: "builder_handle \<lparr>builder_handle = Some 3\<rparr> = Some 3" by simp
  from build_always_invalidates[OF ev] n h have
    "r = Inl (Runtime_error ''Failed to build frame from builder.'')
     \<and> builder_handle b1 = None
     \<and> ConFrameBuilder_dtor failing_build_engine b1 w1 = w1
     \<and> new_calls w1 (ConFrameBuilder_dtor failing_build_engine \<lparr>builder_handle = Some 3\<rparr> w1)
         = [Free_rkr_frame_builder 3]"
    by blast
  with ev n h show ?thesis by blast
qed

end
